theory Spec2Isabelle
  imports Main "HOL-Library.Word" "HOL-Library.Sublist" "HOL-Library.Log_Nat"
begin

section \<open>Strings\<close>

text \<open>
  A JavaScript string is a sequence of UTF-16 code units. The literals of
  \<^verbatim>\<open>frontend/script.js\<close> are ASCII except for two characters (the bullet U+2022
  and the cross mark U+274C), which are written as code units.
\<close>

type_synonym jsstring = \<open>16 word list\<close>

definition ascii :: \<open>string \<Rightarrow> jsstring\<close> where
  \<open>ascii s = map (\<lambda>c. of_nat (of_char c)) s\<close>

text \<open>
  \<^verbatim>\<open>String.prototype.trim\<close> removes the code points of the productions WhiteSpace and
  LineTerminator from both ends.
\<close>

definition isWhiteSpace :: \<open>16 word \<Rightarrow> bool\<close> where
  \<open>isWhiteSpace c \<longleftrightarrow>
     c \<in> {0x0009, 0x000A, 0x000B, 0x000C, 0x000D, 0x0020, 0x00A0, 0x1680,
          0x2000, 0x2001, 0x2002, 0x2003, 0x2004, 0x2005, 0x2006, 0x2007,
          0x2008, 0x2009, 0x200A, 0x2028, 0x2029, 0x202F, 0x205F, 0x3000, 0xFEFF}\<close>

definition trim :: \<open>jsstring \<Rightarrow> jsstring\<close> where
  \<open>trim s = rev (dropWhile isWhiteSpace (rev (dropWhile isWhiteSpace s)))\<close>

text \<open>Decimal digits of a non-negative integer, as in \<^verbatim>\<open>`${i+1}`\<close>.\<close>

definition digit :: \<open>nat \<Rightarrow> 16 word\<close> where
  \<open>digit d = of_nat (48 + d)\<close>

fun decimal :: \<open>nat \<Rightarrow> jsstring\<close> where
  \<open>decimal n = (if n < 10 then [digit n] else decimal (n div 10) @ [digit (n mod 10)])\<close>

declare decimal.simps [simp del]

section \<open>Numbers\<close>

text \<open>
  A Number is an IEEE 754 binary64 value. A finite one is modelled by the rational
  it denotes; the two zeros are identified, because every operation the program
  applies (\<^verbatim>\<open>toFixed\<close>, truthiness, string conversion) treats them alike.
\<close>

datatype jsnum = Finite rat | NaN | PosInf | NegInf

definition pow2 :: \<open>int \<Rightarrow> rat\<close> where
  \<open>pow2 e = (if 0 \<le> e then 2 ^ nat e else 1 / 2 ^ nat (- e))\<close>

text \<open>The exponent of the binade of a positive rational: \<open>2 ^ k \<le> x < 2 ^ (k + 1)\<close>.\<close>

definition floor_log2 :: \<open>rat \<Rightarrow> int\<close> where
  \<open>floor_log2 x =
     (let (p, q) = quotient_of x; k = bitlen p - bitlen q
      in if pow2 k \<le> x then k else k - 1)\<close>

definition round_half_even :: \<open>rat \<Rightarrow> int\<close> where
  \<open>round_half_even x =
     (let f = \<lfloor>x\<rfloor>; r = x - of_int f
      in if r < 1 / 2 then f else if 1 / 2 < r then f + 1 else if even f then f else f + 1)\<close>

text \<open>
  Rounding of an exact result to binary64 (round to nearest, ties to even): 53
  significant bits, least exponent \<open>-1074\<close>, overflow to an infinity from \<open>2 ^ 1024\<close>.
\<close>

definition round_double :: \<open>rat \<Rightarrow> jsnum\<close> where
  \<open>round_double x =
     (if x = 0 then Finite 0
      else
        let a = \<bar>x\<bar>;
            e = max (floor_log2 a - 52) (- 1074);
            m = round_half_even (a / pow2 e);
            v = of_int m * pow2 e
        in if 2 ^ 1024 \<le> v then (if 0 < x then PosInf else NegInf)
           else Finite (if 0 < x then v else - v))\<close>

text \<open>The operator \<^verbatim>\<open>*\<close> on two Numbers (Number::multiply).\<close>

fun is_zero :: \<open>jsnum \<Rightarrow> bool\<close> where
  \<open>is_zero (Finite x) = (x = 0)\<close>
| \<open>is_zero _ = False\<close>

fun is_negative :: \<open>jsnum \<Rightarrow> bool\<close> where
  \<open>is_negative (Finite x) = (x < 0)\<close>
| \<open>is_negative NegInf = True\<close>
| \<open>is_negative _ = False\<close>

fun Number_multiply :: \<open>jsnum \<Rightarrow> jsnum \<Rightarrow> jsnum\<close> where
  \<open>Number_multiply NaN _ = NaN\<close>
| \<open>Number_multiply _ NaN = NaN\<close>
| \<open>Number_multiply (Finite x) (Finite y) = round_double (x * y)\<close>
| \<open>Number_multiply a b =
     (if is_zero a \<or> is_zero b then NaN
      else if is_negative a = is_negative b then PosInf else NegInf)\<close>

section \<open>Values\<close>

text \<open>
  The values \<^verbatim>\<open>JSON.parse\<close> produces, and \<^verbatim>\<open>undefined\<close>, which reading a missing
  property produces. An object is the list of its own properties.
\<close>

datatype jsval =
    JUndefined
  | JNull
  | JBool bool
  | JNum jsnum
  | JStr jsstring
  | JArr \<open>jsval list\<close>
  | JObj \<open>(jsstring \<times> jsval) list\<close>

datatype js_error =
    HttpError nat
  | FetchRejected
  | JsonRejected
  | TypeError

text \<open>
  Two built-in conversions are left to the engine and taken as parameters: the
  digits \<^verbatim>\<open>Number::toString\<close> chooses for a finite positive Number (the standard leaves
  the last digit to the implementation), and the numeric value of a string.
\<close>

record builtins =
  NumberToString :: \<open>rat \<Rightarrow> jsstring\<close>
  StringToNumber :: \<open>jsstring \<Rightarrow> jsnum\<close>

fun Number_toString :: \<open>builtins \<Rightarrow> jsnum \<Rightarrow> jsstring\<close> where
  \<open>Number_toString b NaN = ascii ''NaN''\<close>
| \<open>Number_toString b PosInf = ascii ''Infinity''\<close>
| \<open>Number_toString b NegInf = ascii ''-Infinity''\<close>
| \<open>Number_toString b (Finite x) =
     (if x = 0 then ascii ''0''
      else if x < 0 then ascii ''-'' @ NumberToString b (- x)
      else NumberToString b x)\<close>

text \<open>
  \<^verbatim>\<open>Number.prototype.toFixed(f)\<close>: the integer \<open>n\<close> nearest to \<open>x * 10 ^ f\<close> (the larger
  one of two), its digits padded with zeros to \<open>f + 1\<close> places, and a point before
  the last \<open>f\<close> digits. From \<open>10 ^ 21\<close> on, and for a value that is not finite,
  the result is the plain string conversion.
\<close>

definition toFixed :: \<open>builtins \<Rightarrow> nat \<Rightarrow> jsnum \<Rightarrow> jsstring\<close> where
  \<open>toFixed b f v =
     (case v of
        Finite x0 \<Rightarrow>
          (let s = (if x0 < 0 then ascii ''-'' else []);
               x = \<bar>x0\<bar>
           in if 10 ^ 21 \<le> x then s @ Number_toString b (Finite x)
              else
                let n = nat \<lfloor>x * 10 ^ f + 1 / 2\<rfloor>;
                    m = decimal n;
                    m1 = (if length m \<le> f then replicate (f + 1 - length m) (digit 0) @ m else m);
                    k = length m1
                in s @ (if f \<noteq> 0 then take (k - f) m1 @ ascii ''.'' @ drop (k - f) m1 else m))
      | _ \<Rightarrow> Number_toString b v)\<close>

text \<open>Truthiness (ToBoolean).\<close>

fun ToBoolean :: \<open>jsval \<Rightarrow> bool\<close> where
  \<open>ToBoolean JUndefined = False\<close>
| \<open>ToBoolean JNull = False\<close>
| \<open>ToBoolean (JBool v) = v\<close>
| \<open>ToBoolean (JNum n) = (n \<noteq> NaN \<and> n \<noteq> Finite 0)\<close>
| \<open>ToBoolean (JStr s) = (s \<noteq> [])\<close>
| \<open>ToBoolean (JArr _) = True\<close>
| \<open>ToBoolean (JObj _) = True\<close>

text \<open>
  Reading a property \<^verbatim>\<open>v.k\<close>. It throws on \<^verbatim>\<open>undefined\<close> and \<^verbatim>\<open>null\<close>. An object
  yields its own property; everything else yields what the prototype has, which
  is nothing for the names the program reads as data (\<^verbatim>\<open>normalized_text\<close>,
  \<^verbatim>\<open>retrieved_items\<close>, \<^verbatim>\<open>detected_language_name\<close>, \<^verbatim>\<open>original_text\<close>,
  \<^verbatim>\<open>translated_text\<close>, \<^verbatim>\<open>metrics\<close>, \<^verbatim>\<open>domain\<close>, \<^verbatim>\<open>lang\<close>, \<^verbatim>\<open>score\<close>, \<^verbatim>\<open>text\<close>,
  \<^verbatim>\<open>bleu\<close>, \<^verbatim>\<open>comet\<close>, \<^verbatim>\<open>latency_ms\<close>, \<^verbatim>\<open>named_entity_preservation\<close>,
  \<^verbatim>\<open>toxicity_leakage\<close>). \<open>Get\<close> is used with these names only.
\<close>

fun Get :: \<open>jsval \<Rightarrow> jsstring \<Rightarrow> js_error + jsval\<close> where
  \<open>Get JUndefined k = Inl TypeError\<close>
| \<open>Get JNull k = Inl TypeError\<close>
| \<open>Get (JObj ps) k = Inr (case map_of ps k of None \<Rightarrow> JUndefined | Some v \<Rightarrow> v)\<close>
| \<open>Get _ k = Inr JUndefined\<close>

definition bindE :: \<open>'e + 'a \<Rightarrow> ('a \<Rightarrow> 'e + 'b) \<Rightarrow> 'e + 'b\<close> where
  \<open>bindE m f = (case m of Inl e \<Rightarrow> Inl e | Inr v \<Rightarrow> f v)\<close>

text \<open>
  The string conversion of a template literal (ToString). An array is joined
  with commas, \<^verbatim>\<open>null\<close> and \<^verbatim>\<open>undefined\<close> elements being empty. A plain object is
  \<^verbatim>\<open>[object Object]\<close>, unless it has an own property \<^verbatim>\<open>toString\<close>: a parsed value is
  never callable, \<^verbatim>\<open>valueOf\<close> does not give a primitive, and the conversion throws.
\<close>

fun ToString :: \<open>builtins \<Rightarrow> jsval \<Rightarrow> js_error + jsstring\<close>
  and join_elements :: \<open>builtins \<Rightarrow> jsval list \<Rightarrow> js_error + jsstring\<close> where
  \<open>ToString b JUndefined = Inr (ascii ''undefined'')\<close>
| \<open>ToString b JNull = Inr (ascii ''null'')\<close>
| \<open>ToString b (JBool v) = Inr (if v then ascii ''true'' else ascii ''false'')\<close>
| \<open>ToString b (JNum n) = Inr (Number_toString b n)\<close>
| \<open>ToString b (JStr s) = Inr s\<close>
| \<open>ToString b (JArr vs) = join_elements b vs\<close>
| \<open>ToString b (JObj ps) =
     (if map_of ps (ascii ''toString'') \<noteq> None then Inl TypeError
      else Inr (ascii ''[object Object]''))\<close>
| \<open>join_elements b [] = Inr []\<close>
| \<open>join_elements b (v # vs) =
     bindE (if v = JUndefined \<or> v = JNull then Inr [] else ToString b v) (\<lambda>s.
     if vs = [] then Inr s
     else bindE (join_elements b vs) (\<lambda>r. Inr (s @ ascii '','' @ r)))\<close>

text \<open>The numeric conversion the operator \<^verbatim>\<open>*\<close> applies to an operand (ToNumber).\<close>

fun ToNumber :: \<open>builtins \<Rightarrow> jsval \<Rightarrow> js_error + jsnum\<close> where
  \<open>ToNumber b JUndefined = Inr NaN\<close>
| \<open>ToNumber b JNull = Inr (Finite 0)\<close>
| \<open>ToNumber b (JBool v) = Inr (Finite (if v then 1 else 0))\<close>
| \<open>ToNumber b (JNum n) = Inr n\<close>
| \<open>ToNumber b (JStr s) = Inr (StringToNumber b s)\<close>
| \<open>ToNumber b v = bindE (ToString b v) (\<lambda>s. Inr (StringToNumber b s))\<close>

text \<open>
  The call \<^verbatim>\<open>v.toFixed(f)\<close>: only a Number has the method; \<^verbatim>\<open>undefined\<close> and \<^verbatim>\<open>null\<close>
  have no properties, and on any other parsed value \<^verbatim>\<open>toFixed\<close> is not a function.
\<close>

fun call_toFixed :: \<open>builtins \<Rightarrow> jsval \<Rightarrow> nat \<Rightarrow> js_error + jsstring\<close> where
  \<open>call_toFixed b (JNum n) f = Inr (toFixed b f n)\<close>
| \<open>call_toFixed b _ f = Inl TypeError\<close>

section \<open>JSON text of the request\<close>

text \<open>
  \<^verbatim>\<open>JSON.stringify\<close> on the payload \<^verbatim>\<open>{ text, target_lang }\<close>, whose two values are
  strings. QuoteJSONString escapes the quotation mark, the backslash, the control
  characters and every surrogate that is not part of a pair.
\<close>

definition hex_digit :: \<open>nat \<Rightarrow> 16 word\<close> where
  \<open>hex_digit d = (if d < 10 then of_nat (48 + d) else of_nat (87 + d))\<close>

definition UnicodeEscape :: \<open>16 word \<Rightarrow> jsstring\<close> where
  \<open>UnicodeEscape c =
     (let n = unat c
      in [0x5C, 0x75, hex_digit (n div 4096), hex_digit (n div 256 mod 16),
          hex_digit (n div 16 mod 16), hex_digit (n mod 16)])\<close>

definition is_leading_surrogate :: \<open>16 word \<Rightarrow> bool\<close> where
  \<open>is_leading_surrogate c \<longleftrightarrow> 0xD800 \<le> c \<and> c \<le> 0xDBFF\<close>

definition is_trailing_surrogate :: \<open>16 word \<Rightarrow> bool\<close> where
  \<open>is_trailing_surrogate c \<longleftrightarrow> 0xDC00 \<le> c \<and> c \<le> 0xDFFF\<close>

definition escape_unit :: \<open>16 word \<Rightarrow> jsstring\<close> where
  \<open>escape_unit c =
     (if c = 0x08 then [0x5C, 0x62]
      else if c = 0x09 then [0x5C, 0x74]
      else if c = 0x0A then [0x5C, 0x6E]
      else if c = 0x0C then [0x5C, 0x66]
      else if c = 0x0D then [0x5C, 0x72]
      else if c = 0x22 then [0x5C, 0x22]
      else if c = 0x5C then [0x5C, 0x5C]
      else if c < 0x20 \<or> is_leading_surrogate c \<or> is_trailing_surrogate c then UnicodeEscape c
      else [c])\<close>

fun quote_units :: \<open>jsstring \<Rightarrow> jsstring\<close> where
  \<open>quote_units [] = []\<close>
| \<open>quote_units [c] = escape_unit c\<close>
| \<open>quote_units (c # d # ds) =
     (if is_leading_surrogate c \<and> is_trailing_surrogate d then c # d # quote_units ds
      else escape_unit c @ quote_units (d # ds))\<close>

definition QuoteJSONString :: \<open>jsstring \<Rightarrow> jsstring\<close> where
  \<open>QuoteJSONString s = [0x22] @ quote_units s @ [0x22]\<close>

definition JSON_stringify_payload :: \<open>jsstring \<Rightarrow> jsstring \<Rightarrow> jsstring\<close> where
  \<open>JSON_stringify_payload text target_lang =
     ascii ''{'' @ QuoteJSONString (ascii ''text'') @ ascii '':'' @ QuoteJSONString text @
     ascii '','' @ QuoteJSONString (ascii ''target_lang'') @ ascii '':'' @
     QuoteJSONString target_lang @ ascii ''}''\<close>

section \<open>The markup of the templates\<close>

definition API_URL :: jsstring where
  \<open>API_URL = ascii ''http://127.0.0.1:5000''\<close>

definition loading_html :: jsstring where
  \<open>loading_html =
     ascii ''\<newline>'' @
     ascii ''    <div class="flex justify-center p-8">\<newline>'' @
     ascii ''      <div class="loader"></div>\<newline>'' @
     ascii ''      <p class="ml-4 text-slate-600">Analyzing pipeline...</p>\<newline>'' @
     ascii ''    </div>''\<close>

definition calculating_html :: jsstring where
  \<open>calculating_html = ascii ''<p class="text-slate-500">Calculating...</p>''\<close>

definition error_html :: jsstring where
  \<open>error_html =
     ascii ''<div class="bg-red-50 border border-red-200 p-4 rounded-lg"><p class="text-red-700">'' @
     [0x274C] @
     ascii '' Backend error. Is Flask running?</p></div>''\<close>

definition failed_html :: jsstring where
  \<open>failed_html = ascii ''<p class="text-red-500">Failed</p>''\<close>

definition norm_open :: jsstring where
  \<open>norm_open =
     ascii ''\<newline>'' @
     ascii ''    <div class="mt-3 p-3 bg-sky-50 border-l-4 border-sky-300 rounded-r-lg animate-fadeIn">\<newline>'' @
     ascii ''      <h4 class="font-semibold text-slate-600">Normalized Input</h4>\<newline>'' @
     ascii ''      <p class="mt-1 text-slate-800">''\<close>

definition norm_close :: jsstring where
  \<open>norm_close =
     ascii ''</p>\<newline>'' @
     ascii ''    </div>''\<close>

definition item_open :: jsstring where
  \<open>item_open =
     ascii ''\<newline>'' @
     ascii ''      <div class="p-3 rounded-md border bg-amber-50 mb-2 result-item animate-slideUp">\<newline>'' @
     ascii ''        <div class="text-xs text-amber-700 mb-1">#''\<close>

definition bullet :: jsstring where
  \<open>bullet = ascii '' '' @ [0x2022] @ ascii '' ''\<close>

definition bullet_score :: jsstring where
  \<open>bullet_score = ascii '' '' @ [0x2022] @ ascii '' score ''\<close>

definition item_text_open :: jsstring where
  \<open>item_text_open =
     ascii ''</div>\<newline>'' @
     ascii ''        <div class="text-slate-800">''\<close>

definition item_close :: jsstring where
  \<open>item_close =
     ascii ''</div>\<newline>'' @
     ascii ''      </div>\<newline>'' @
     ascii ''    ''\<close>

definition no_items_html :: jsstring where
  \<open>no_items_html = ascii ''<div class="text-slate-500">No relevant items found.</div>''\<close>

definition card_open :: jsstring where
  \<open>card_open =
     ascii ''\<newline>'' @
     ascii ''    <div class="bg-gray-50 rounded-lg p-6 shadow-sm space-y-4 result-card animate-fadeIn">\<newline>'' @
     ascii ''      <div>\<newline>'' @
     ascii ''        <h3 class="font-semibold text-slate-500">Detected Language</h3>\<newline>'' @
     ascii ''        <span class="inline-block bg-indigo-100 text-indigo-700 text-sm font-bold px-3 py-1 rounded-full">''\<close>

definition original_open :: jsstring where
  \<open>original_open =
     ascii ''</span>\<newline>'' @
     ascii ''        <p class="mt-2 text-lg text-slate-900">''\<close>

definition original_close :: jsstring where
  \<open>original_close =
     ascii ''</p>\<newline>'' @
     ascii ''      </div>\<newline>'' @
     ascii ''      ''\<close>

definition retrieved_open :: jsstring where
  \<open>retrieved_open =
     ascii ''\<newline>'' @
     ascii ''      <div>\<newline>'' @
     ascii ''        <h3 class="font-semibold text-slate-500">Retrieved Context (Top-K)</h3>\<newline>'' @
     ascii ''        ''\<close>

definition final_open :: jsstring where
  \<open>final_open =
     ascii ''\<newline>'' @
     ascii ''      </div>\<newline>'' @
     ascii ''      <div>\<newline>'' @
     ascii ''        <h3 class="font-semibold text-slate-500">Final Output</h3>\<newline>'' @
     ascii ''        <p id="translated-text" class="mt-1 text-xl font-semibold text-indigo-700 animate-popIn">''\<close>

definition card_close :: jsstring where
  \<open>card_close =
     ascii ''</p>\<newline>'' @
     ascii ''      </div>\<newline>'' @
     ascii ''    </div>\<newline>'' @
     ascii ''  ''\<close>

definition bleu_open :: jsstring where
  \<open>bleu_open =
     ascii ''\<newline>'' @
     ascii ''    <div class="grid grid-cols-2 sm:grid-cols-3 gap-4 animate-fadeIn">\<newline>'' @
     ascii ''      <div>\<newline>'' @
     ascii ''        <p class="text-sm text-slate-500">BLEU</p>\<newline>'' @
     ascii ''        <p class="text-lg font-bold text-slate-800">''\<close>

definition comet_open :: jsstring where
  \<open>comet_open =
     ascii ''</p>\<newline>'' @
     ascii ''      </div>\<newline>'' @
     ascii ''      <div>\<newline>'' @
     ascii ''        <p class="text-sm text-slate-500">COMET</p>\<newline>'' @
     ascii ''        <p class="text-lg font-bold text-slate-800">''\<close>

definition latency_open :: jsstring where
  \<open>latency_open =
     ascii ''</p>\<newline>'' @
     ascii ''      </div>\<newline>'' @
     ascii ''      <div>\<newline>'' @
     ascii ''        <p class="text-sm text-slate-500">Latency</p>\<newline>'' @
     ascii ''        <p class="text-lg font-bold text-slate-800">''\<close>

definition ne_open :: jsstring where
  \<open>ne_open =
     ascii '' ms</p>\<newline>'' @
     ascii ''      </div>\<newline>'' @
     ascii ''      <div>\<newline>'' @
     ascii ''        <p class="text-sm text-slate-500">NE Preservation</p>\<newline>'' @
     ascii ''        <p class="text-lg font-bold text-slate-800">''\<close>

definition toxicity_open :: jsstring where
  \<open>toxicity_open =
     ascii ''%</p>\<newline>'' @
     ascii ''      </div>\<newline>'' @
     ascii ''      <div>\<newline>'' @
     ascii ''        <p class="text-sm text-slate-500">Toxicity Leakage</p>\<newline>'' @
     ascii ''        <p class="text-lg font-bold text-slate-800">''\<close>

definition grid_close :: jsstring where
  \<open>grid_close =
     ascii ''%</p>\<newline>'' @
     ascii ''      </div>\<newline>'' @
     ascii ''    </div>\<newline>'' @
     ascii ''  ''\<close>

section \<open>Rendering\<close>

text \<open>
  The constant \<^verbatim>\<open>norm\<close> of \<^verbatim>\<open>renderResults\<close>: the block when \<^verbatim>\<open>d.normalized_text\<close> is
  truthy, the empty string otherwise.
\<close>

definition norm :: \<open>builtins \<Rightarrow> jsval \<Rightarrow> js_error + jsstring\<close> where
  \<open>norm b d =
     bindE (Get d (ascii ''normalized_text'')) (\<lambda>nt.
     if ToBoolean nt then bindE (ToString b nt) (\<lambda>s. Inr (norm_open @ s @ norm_close))
     else Inr [])\<close>

text \<open>The callback of \<^verbatim>\<open>map\<close>, for the element \<open>r\<close> at index \<open>i\<close>.\<close>

definition render_item :: \<open>builtins \<Rightarrow> nat \<Rightarrow> jsval \<Rightarrow> js_error + jsstring\<close> where
  \<open>render_item b i r =
     bindE (Get r (ascii ''domain'')) (\<lambda>v1. bindE (ToString b v1) (\<lambda>domain_s.
     bindE (Get r (ascii ''lang'')) (\<lambda>v2. bindE (ToString b v2) (\<lambda>lang_s.
     bindE (Get r (ascii ''score'')) (\<lambda>v3. bindE (call_toFixed b v3 3) (\<lambda>score_s.
     bindE (Get r (ascii ''text'')) (\<lambda>v4. bindE (ToString b v4) (\<lambda>text_s.
     Inr (item_open @ decimal (i + 1) @ bullet @ domain_s @ bullet @ lang_s @
          bullet_score @ score_s @ item_text_open @ text_s @ item_close)))))))))\<close>

fun map_items :: \<open>builtins \<Rightarrow> nat \<Rightarrow> jsval list \<Rightarrow> js_error + jsstring list\<close> where
  \<open>map_items b i [] = Inr []\<close>
| \<open>map_items b i (r # rs) =
     bindE (render_item b i r) (\<lambda>h.
     bindE (map_items b (Suc i) rs) (\<lambda>hs. Inr (h # hs)))\<close>

text \<open>
  The constant \<^verbatim>\<open>ragList\<close>: \<^verbatim>\<open>(d.retrieved_items || []).map(...).join('') || placeholder\<close>.
  A truthy value that is not an array has no method \<^verbatim>\<open>map\<close>.
\<close>

definition ragList :: \<open>builtins \<Rightarrow> jsval \<Rightarrow> js_error + jsstring\<close> where
  \<open>ragList b d =
     bindE (Get d (ascii ''retrieved_items'')) (\<lambda>ri.
     case (if ToBoolean ri then ri else JArr []) of
       JArr rs \<Rightarrow>
         bindE (map_items b 0 rs) (\<lambda>hs.
         Inr (if concat hs \<noteq> [] then concat hs else no_items_html))
     | _ \<Rightarrow> Inl TypeError)\<close>

text \<open>The string \<^verbatim>\<open>renderResults\<close> assigns to \<^verbatim>\<open>resultsContainer.innerHTML\<close>.\<close>

definition renderResults_html :: \<open>builtins \<Rightarrow> jsval \<Rightarrow> js_error + jsstring\<close> where
  \<open>renderResults_html b d =
     bindE (norm b d) (\<lambda>norm_s.
     bindE (ragList b d) (\<lambda>ragList_s.
     bindE (Get d (ascii ''detected_language_name'')) (\<lambda>v1. bindE (ToString b v1) (\<lambda>name_s.
     bindE (Get d (ascii ''original_text'')) (\<lambda>v2. bindE (ToString b v2) (\<lambda>original_s.
     bindE (Get d (ascii ''translated_text'')) (\<lambda>v3. bindE (ToString b v3) (\<lambda>translated_s.
     Inr (card_open @ name_s @ original_open @ original_s @ original_close @ norm_s @
          retrieved_open @ ragList_s @ final_open @ translated_s @ card_close)))))))))\<close>

text \<open>\<^verbatim>\<open>(v*100).toFixed(2)\<close>.\<close>

definition percent :: \<open>builtins \<Rightarrow> jsval \<Rightarrow> js_error + jsstring\<close> where
  \<open>percent b v =
     bindE (ToNumber b v) (\<lambda>n. Inr (toFixed b 2 (Number_multiply n (Finite 100))))\<close>

text \<open>The string \<^verbatim>\<open>renderMetrics\<close> assigns to \<^verbatim>\<open>metricsContainer.innerHTML\<close>.\<close>

definition renderMetrics_html :: \<open>builtins \<Rightarrow> jsval \<Rightarrow> js_error + jsstring\<close> where
  \<open>renderMetrics_html b m =
     bindE (Get m (ascii ''bleu'')) (\<lambda>v1. bindE (ToString b v1) (\<lambda>bleu_s.
     bindE (Get m (ascii ''comet'')) (\<lambda>v2. bindE (ToString b v2) (\<lambda>comet_s.
     bindE (Get m (ascii ''latency_ms'')) (\<lambda>v3. bindE (ToString b v3) (\<lambda>latency_s.
     bindE (Get m (ascii ''named_entity_preservation'')) (\<lambda>v4. bindE (percent b v4) (\<lambda>ne_s.
     bindE (Get m (ascii ''toxicity_leakage'')) (\<lambda>v5. bindE (percent b v5) (\<lambda>tox_s.
     Inr (bleu_open @ bleu_s @ comet_open @ comet_s @ latency_open @ latency_s @
          ne_open @ ne_s @ toxicity_open @ tox_s @ grid_close)))))))))))\<close>

section \<open>The page and the submit handler\<close>

datatype element = TextInput | MicBtn | ClearBtn | ProcessBtn | TargetLangSelect | TiltCard | Body

record request =
  req_url :: jsstring
  req_method :: jsstring
  req_headers :: \<open>(jsstring \<times> jsstring) list\<close>
  req_body :: jsstring

text \<open>
  The state a run of the handler reads and writes: the two input values, the two
  display regions, the focused element, what \<^verbatim>\<open>console.error\<close> has logged and the
  calls of \<^verbatim>\<open>fetch\<close> made so far.
\<close>

record page =
  textInput_value :: jsstring
  targetLangSelect_value :: jsstring
  resultsContainer_innerHTML :: jsstring
  metricsContainer_innerHTML :: jsstring
  activeElement :: element
  console_errors :: \<open>js_error list\<close>
  fetch_calls :: \<open>request list\<close>

text \<open>
  What the awaited \<^verbatim>\<open>fetch\<close> gives: a rejection, or a response with its status,
  whose \<^verbatim>\<open>json()\<close> gives a parsed value or rejects.
\<close>

datatype body_result = JsonValue jsval | JsonFailure

datatype fetch_result = Rejected | Response nat body_result

definition ok :: \<open>nat \<Rightarrow> bool\<close> where
  \<open>ok status \<longleftrightarrow> 200 \<le> status \<and> status \<le> 299\<close>

text \<open>
  A statement returns the exception it throws, if any, and the page it leaves.
  \<^verbatim>\<open>renderResults\<close> writes the results region once the whole string is built; the
  animation delays it then sets on the items are styles, outside this state.
\<close>

definition renderResults :: \<open>builtins \<Rightarrow> jsval \<Rightarrow> page \<Rightarrow> js_error option \<times> page\<close> where
  \<open>renderResults b d p =
     (case renderResults_html b d of
        Inl e \<Rightarrow> (Some e, p)
      | Inr h \<Rightarrow> (None, p\<lparr>resultsContainer_innerHTML := h\<rparr>))\<close>

definition renderMetrics :: \<open>builtins \<Rightarrow> jsval \<Rightarrow> page \<Rightarrow> js_error option \<times> page\<close> where
  \<open>renderMetrics b m p =
     (case renderMetrics_html b m of
        Inl e \<Rightarrow> (Some e, p)
      | Inr h \<Rightarrow> (None, p\<lparr>metricsContainer_innerHTML := h\<rparr>))\<close>

text \<open>The body of the \<^verbatim>\<open>try\<close> block, given what the awaited calls give.\<close>

definition try_block :: \<open>builtins \<Rightarrow> fetch_result \<Rightarrow> jsstring \<Rightarrow> page \<Rightarrow> js_error option \<times> page\<close> where
  \<open>try_block b net text p =
     (let req = \<lparr>req_url = API_URL @ ascii ''/api/process'',
                 req_method = ascii ''POST'',
                 req_headers = [(ascii ''Content-Type'', ascii ''application/json'')],
                 req_body = JSON_stringify_payload text (targetLangSelect_value p)\<rparr>;
          p1 = p\<lparr>fetch_calls := fetch_calls p @ [req]\<rparr>
      in case net of
           Rejected \<Rightarrow> (Some FetchRejected, p1)
         | Response status body \<Rightarrow>
             if \<not> ok status then (Some (HttpError status), p1)
             else
               (case body of
                  JsonFailure \<Rightarrow> (Some JsonRejected, p1)
                | JsonValue data \<Rightarrow>
                    (case renderResults b data p1 of
                       (Some e, p2) \<Rightarrow> (Some e, p2)
                     | (None, p2) \<Rightarrow>
                         (case Get data (ascii ''metrics'') of
                            Inl e \<Rightarrow> (Some e, p2)
                          | Inr m \<Rightarrow> renderMetrics b m p2))))\<close>

text \<open>
  \<^verbatim>\<open>handleProcess\<close>. The first component of the result is the exception that leaves
  the function (the rejection of the promise it returns).
\<close>

definition handleProcess :: \<open>builtins \<Rightarrow> fetch_result \<Rightarrow> page \<Rightarrow> js_error option \<times> page\<close> where
  \<open>handleProcess b net p =
     (let text = trim (textInput_value p)
      in if text = [] then (None, p\<lparr>activeElement := TextInput\<rparr>)
         else
           (case try_block b net text
                   (p\<lparr>resultsContainer_innerHTML := loading_html,
                      metricsContainer_innerHTML := calculating_html\<rparr>) of
              (Some e, p2) \<Rightarrow>
                (None, p2\<lparr>console_errors := console_errors p2 @ [e],
                          resultsContainer_innerHTML := error_html,
                          metricsContainer_innerHTML := failed_html\<rparr>)
            | (None, p2) \<Rightarrow> (None, p2)))\<close>

section \<open>The shapes of the data model\<close>

text \<open>
  The response the backend is expected to send, as typed records, and what it
  means for a parsed value to carry one: each property is there with the type
  the data model gives it; \<^verbatim>\<open>normalized_text\<close> may be absent.
\<close>

record RetrievedItem =
  item_domain :: jsstring
  item_lang :: jsstring
  item_score :: rat
  item_text :: jsstring

record ProcessResponse =
  detected_language_name :: jsstring
  original_text :: jsstring
  normalized_text :: \<open>jsstring option\<close>
  retrieved_items :: \<open>RetrievedItem list\<close>
  translated_text :: jsstring

definition represents_item :: \<open>jsval \<Rightarrow> RetrievedItem \<Rightarrow> bool\<close> where
  \<open>represents_item r it \<longleftrightarrow>
     Get r (ascii ''domain'') = Inr (JStr (item_domain it)) \<and>
     Get r (ascii ''lang'') = Inr (JStr (item_lang it)) \<and>
     Get r (ascii ''score'') = Inr (JNum (Finite (item_score it))) \<and>
     Get r (ascii ''text'') = Inr (JStr (item_text it))\<close>

definition represents_response :: \<open>jsval \<Rightarrow> ProcessResponse \<Rightarrow> bool\<close> where
  \<open>represents_response d R \<longleftrightarrow>
     Get d (ascii ''detected_language_name'') = Inr (JStr (detected_language_name R)) \<and>
     Get d (ascii ''original_text'') = Inr (JStr (original_text R)) \<and>
     Get d (ascii ''normalized_text'') =
       Inr (case normalized_text R of None \<Rightarrow> JUndefined | Some s \<Rightarrow> JStr s) \<and>
     (\<exists>rs. Get d (ascii ''retrieved_items'') = Inr (JArr rs) \<and>
           list_all2 represents_item rs (retrieved_items R)) \<and>
     Get d (ascii ''translated_text'') = Inr (JStr (translated_text R))\<close>

text \<open>
  The element the rendering rules describe for one retrieved item: its rank, its
  domain, its language, its score with three decimals, and its text.
\<close>

definition item_markup :: \<open>builtins \<Rightarrow> nat \<Rightarrow> RetrievedItem \<Rightarrow> jsstring\<close> where
  \<open>item_markup b rank it =
     item_open @ decimal rank @ bullet @ item_domain it @ bullet @ item_lang it @
     bullet_score @ toFixed b 3 (Finite (item_score it)) @ item_text_open @ item_text it @
     item_close\<close>

record Metrics =
  bleu :: rat
  comet :: rat
  latency_ms :: rat
  named_entity_preservation :: rat
  toxicity_leakage :: rat

definition represents_metrics :: \<open>jsval \<Rightarrow> Metrics \<Rightarrow> bool\<close> where
  \<open>represents_metrics m M \<longleftrightarrow>
     Get m (ascii ''bleu'') = Inr (JNum (Finite (bleu M))) \<and>
     Get m (ascii ''comet'') = Inr (JNum (Finite (comet M))) \<and>
     Get m (ascii ''latency_ms'') = Inr (JNum (Finite (latency_ms M))) \<and>
     Get m (ascii ''named_entity_preservation'') =
       Inr (JNum (Finite (named_entity_preservation M))) \<and>
     Get m (ascii ''toxicity_leakage'') = Inr (JNum (Finite (toxicity_leakage M)))\<close>

text \<open>
  A number printed with exactly \<open>f\<close> decimals: an optional minus sign, at least
  one digit, a point, and \<open>f\<close> digits to the end.
\<close>

definition is_digit :: \<open>16 word \<Rightarrow> bool\<close> where
  \<open>is_digit c \<longleftrightarrow> 0x30 \<le> c \<and> c \<le> 0x39\<close>

definition fixed_format :: \<open>nat \<Rightarrow> jsstring \<Rightarrow> bool\<close> where
  \<open>fixed_format f s =
     (let u = (if s \<noteq> [] \<and> hd s = 0x2D then tl s else s);
          k = length u - (f + 1)
      in f + 2 \<le> length u \<and> list_all is_digit (take k u) \<and> u ! k = 0x2E \<and>
         list_all is_digit (drop (Suc k) u))\<close>

text \<open>The failures of the network step, and the error each one throws.\<close>

fun is_failure :: \<open>fetch_result \<Rightarrow> bool\<close> where
  \<open>is_failure Rejected = True\<close>
| \<open>is_failure (Response status body) = (\<not> ok status \<or> body = JsonFailure)\<close>

fun failure_error :: \<open>fetch_result \<Rightarrow> js_error\<close> where
  \<open>failure_error Rejected = FetchRejected\<close>
| \<open>failure_error (Response status body) =
     (if \<not> ok status then HttpError status else JsonRejected)\<close>

text \<open>Rendering a parsed value throws: in \<^verbatim>\<open>renderResults\<close>, or else in \<^verbatim>\<open>renderMetrics\<close>.\<close>

definition render_throws :: \<open>builtins \<Rightarrow> jsval \<Rightarrow> bool\<close> where
  \<open>render_throws b d =
     (case renderResults_html b d of
        Inl e \<Rightarrow> True
      | Inr h \<Rightarrow>
         (case Get d (ascii ''metrics'') of
            Inl e \<Rightarrow> True
          | Inr m \<Rightarrow> (case renderMetrics_html b m of Inl e \<Rightarrow> True | Inr h' \<Rightarrow> False)))\<close>

section \<open>Sample inputs\<close>

text \<open>
  An engine for the examples: it prints the three numbers the sample metrics use
  as JavaScript prints them.
\<close>

definition sample_engine :: builtins where
  \<open>sample_engine =
     \<lparr>NumberToString =
        (\<lambda>x. if x = 1 / 4 then ascii ''0.25''
             else if x = 3 / 4 then ascii ''0.75''
             else if x = 120 then ascii ''120''
             else ascii ''?''),
      StringToNumber = (\<lambda>s. NaN)\<rparr>\<close>

definition sample_page :: \<open>jsstring \<Rightarrow> jsstring \<Rightarrow> page\<close> where
  \<open>sample_page v l =
     \<lparr>textInput_value = v, targetLangSelect_value = l,
      resultsContainer_innerHTML = ascii ''old results'',
      metricsContainer_innerHTML = ascii ''old metrics'',
      activeElement = ProcessBtn, console_errors = [], fetch_calls = []\<rparr>\<close>

definition sample_items :: \<open>RetrievedItem list\<close> where
  \<open>sample_items =
     [\<lparr>item_domain = ascii ''news'', item_lang = ascii ''hi'',
       item_score = 7413825706577311 / 9007199254740992, item_text = ascii ''<b>alpha</b>''\<rparr>,
      \<lparr>item_domain = ascii ''health'', item_lang = ascii ''te'',
       item_score = 1 / 2, item_text = ascii ''beta''\<rparr>]\<close>

definition sample_item_values :: \<open>jsval list\<close> where
  \<open>sample_item_values =
     [JObj [(ascii ''domain'', JStr (ascii ''news'')), (ascii ''lang'', JStr (ascii ''hi'')),
            (ascii ''score'', JNum (round_double (8231 / 10000))),
            (ascii ''text'', JStr (ascii ''<b>alpha</b>''))],
      JObj [(ascii ''domain'', JStr (ascii ''health'')), (ascii ''lang'', JStr (ascii ''te'')),
            (ascii ''score'', JNum (round_double (1 / 2))),
            (ascii ''text'', JStr (ascii ''beta''))]]\<close>

definition sample_metrics :: Metrics where
  \<open>sample_metrics =
     \<lparr>bleu = 1 / 4, comet = 3 / 4, latency_ms = 120,
      named_entity_preservation = 8617187527010707 / 9007199254740992,
      toxicity_leakage = 5764607523034235 / 576460752303423488\<rparr>\<close>

definition sample_metrics_value :: jsval where
  \<open>sample_metrics_value =
     JObj [(ascii ''bleu'', JNum (Finite (1 / 4))), (ascii ''comet'', JNum (Finite (3 / 4))),
           (ascii ''latency_ms'', JNum (Finite 120)),
           (ascii ''named_entity_preservation'', JNum (round_double (9567 / 10000))),
           (ascii ''toxicity_leakage'', JNum (round_double (1 / 100)))]\<close>

definition sample_response :: \<open>jsstring option \<Rightarrow> RetrievedItem list \<Rightarrow> ProcessResponse\<close> where
  \<open>sample_response nt its =
     \<lparr>detected_language_name = ascii ''Hindi'', original_text = ascii ''<i>namaste</i>'',
      normalized_text = nt, retrieved_items = its, translated_text = ascii ''hello''\<rparr>\<close>

definition sample_response_value :: \<open>(jsstring \<times> jsval) list \<Rightarrow> jsval list \<Rightarrow> jsval\<close> where
  \<open>sample_response_value nt rs =
     JObj ([(ascii ''detected_language_name'', JStr (ascii ''Hindi'')),
            (ascii ''original_text'', JStr (ascii ''<i>namaste</i>''))] @ nt @
           [(ascii ''retrieved_items'', JArr rs),
            (ascii ''translated_text'', JStr (ascii ''hello'')),
            (ascii ''metrics'', sample_metrics_value)])\<close>

section \<open>The submit handler: empty input, the request, failures\<close>

lemma bindE_simps [simp]: \<open>bindE (Inr v) f = f v\<close> \<open>bindE (Inl e) f = Inl e\<close>
  by (simp_all add: bindE_def)

lemma all_dropWhile: \<open>(\<forall>x\<in>set (dropWhile P s). P x) \<longleftrightarrow> (\<forall>x\<in>set s. P x)\<close>
  by (induction s) auto

lemma trim_empty_iff: \<open>trim s = [] \<longleftrightarrow> list_all isWhiteSpace s\<close>
  by (simp add: trim_def list_all_iff all_dropWhile)

lemma try_block_fetch_calls:
  \<open>fetch_calls (snd (try_block b net text p)) =
     fetch_calls p @ [\<lparr>req_url = API_URL @ ascii ''/api/process'',
                 req_method = ascii ''POST'',
                 req_headers = [(ascii ''Content-Type'', ascii ''application/json'')],
                 req_body = JSON_stringify_payload text (targetLangSelect_value p)\<rparr>]\<close>
  by (auto simp: try_block_def Let_def renderResults_def renderMetrics_def
      split: fetch_result.splits body_result.splits sum.splits prod.splits option.splits)

lemma handleProcess_fetch_calls:
  \<open>trim (textInput_value p) \<noteq> [] \<Longrightarrow>
   fetch_calls (snd (handleProcess b net p)) =
     fetch_calls (snd (try_block b net (trim (textInput_value p))
        (p\<lparr>resultsContainer_innerHTML := loading_html,
           metricsContainer_innerHTML := calculating_html\<rparr>)))\<close>
  by (auto simp: handleProcess_def Let_def split: prod.splits option.splits)

lemma try_block_failure:
  \<open>is_failure net \<Longrightarrow>
   try_block b net text p =
     (Some (failure_error net),
      p\<lparr>fetch_calls := fetch_calls p @ [\<lparr>req_url = API_URL @ ascii ''/api/process'',
                 req_method = ascii ''POST'',
                 req_headers = [(ascii ''Content-Type'', ascii ''application/json'')],
                 req_body = JSON_stringify_payload text (targetLangSelect_value p)\<rparr>]\<rparr>)\<close>
  by (cases net) (auto simp: try_block_def Let_def split: body_result.splits)

lemma try_block_cases:
  \<open>(\<exists>e p2. try_block b net text p = (Some e, p2)) \<or>
   (\<exists>status d m hr hm. net = Response status (JsonValue d) \<and> ok status \<and>
       renderResults_html b d = Inr hr \<and> Get d (ascii ''metrics'') = Inr m \<and>
       renderMetrics_html b m = Inr hm \<and>
       (\<exists>p2. try_block b net text p = (None, p2) \<and>
             resultsContainer_innerHTML p2 = hr \<and> metricsContainer_innerHTML p2 = hm))\<close>
  by (auto simp: try_block_def Let_def renderResults_def renderMetrics_def
      split: fetch_result.splits body_result.splits sum.splits prod.splits option.splits)

text \<open>
  Claim C3. When the input is empty or consists of white space only, the handler
  calls \<^verbatim>\<open>fetch\<close> not at all, logs and renders nothing, leaves both display regions
  as they were and gives the focus to the text field: the page changes in its
  focused element only, and no exception leaves the handler.
\<close>

theorem handleProcess_blank:
  assumes \<open>list_all isWhiteSpace (textInput_value p)\<close>
  shows \<open>handleProcess b net p = (None, p\<lparr>activeElement := TextInput\<rparr>)\<close>
  using assms by (simp add: handleProcess_def trim_empty_iff)

theorem handleProcess_blank_witness:
  \<open>list_all isWhiteSpace (textInput_value (sample_page (ascii '' '' @ [0x00A0, 0x0009]) (ascii ''hi''))) \<and>
   handleProcess sample_engine Rejected (sample_page (ascii '' '' @ [0x00A0, 0x0009]) (ascii ''hi'')) =
     (None, (sample_page (ascii '' '' @ [0x00A0, 0x0009]) (ascii ''hi''))\<lparr>activeElement := TextInput\<rparr>)\<close>
proof -
  have h: \<open>list_all isWhiteSpace
      (textInput_value (sample_page (ascii '' '' @ [0x00A0, 0x0009]) (ascii ''hi'')))\<close>
    by (simp add: sample_page_def ascii_def isWhiteSpace_def)
  from h handleProcess_blank [OF h, of sample_engine Rejected] show ?thesis by (intro conjI)
qed

text \<open>
  Claim C1. When the trimmed input is not empty, one run of the handler adds
  exactly one call of \<^verbatim>\<open>fetch\<close> to those made before, whatever the network then
  answers: a POST to \<^verbatim>\<open>/api/process\<close> on the fixed origin, with the single header
  \<^verbatim>\<open>Content-Type: application/json\<close>, whose body is the JSON text of the object with
  \<^verbatim>\<open>text\<close> the trimmed input and \<^verbatim>\<open>target_lang\<close> the value of the selection, whatever
  that value is.
\<close>

theorem handleProcess_request:
  assumes \<open>trim (textInput_value p) \<noteq> []\<close>
  shows \<open>fetch_calls (snd (handleProcess b net p)) =
     fetch_calls p @
       [\<lparr>req_url = ascii ''http://127.0.0.1:5000/api/process'',
         req_method = ascii ''POST'',
         req_headers = [(ascii ''Content-Type'', ascii ''application/json'')],
         req_body = JSON_stringify_payload (trim (textInput_value p)) (targetLangSelect_value p)\<rparr>]\<close>
  using assms
  by (simp add: handleProcess_fetch_calls try_block_fetch_calls API_URL_def ascii_def)

theorem handleProcess_request_witness:
  \<open>trim (textInput_value (sample_page (ascii ''  hello '') (ascii ''xx''))) \<noteq> [] \<and>
   fetch_calls (snd (handleProcess sample_engine Rejected
       (sample_page (ascii ''  hello '') (ascii ''xx'')))) =
       [\<lparr>req_url = ascii ''http://127.0.0.1:5000/api/process'',
         req_method = ascii ''POST'',
         req_headers = [(ascii ''Content-Type'', ascii ''application/json'')],
         req_body = ascii ''{"text":"hello","target_lang":"xx"}''\<rparr>]\<close>
  using handleProcess_request [of \<open>sample_page (ascii ''  hello '') (ascii ''xx'')\<close>
      sample_engine Rejected]
  by (simp add: sample_page_def trim_def isWhiteSpace_def JSON_stringify_payload_def
      QuoteJSONString_def escape_unit_def is_leading_surrogate_def is_trailing_surrogate_def
      ascii_def)

text \<open>
  Claim C2. When the trimmed input is not empty and the network step fails (the
  call of \<^verbatim>\<open>fetch\<close> rejects, the status is not in the ok range, or the body does not
  parse), the handler ends with the fixed error message in the results region and
  the fixed label in the metrics region, has logged the error thrown, and lets no
  exception out.
\<close>

theorem handleProcess_failure:
  assumes \<open>trim (textInput_value p) \<noteq> []\<close> and \<open>is_failure net\<close>
  shows \<open>fst (handleProcess b net p) = None \<and>
         resultsContainer_innerHTML (snd (handleProcess b net p)) = error_html \<and>
         metricsContainer_innerHTML (snd (handleProcess b net p)) = failed_html \<and>
         console_errors (snd (handleProcess b net p)) = console_errors p @ [failure_error net]\<close>
  using assms by (simp add: handleProcess_def Let_def try_block_failure)

theorem handleProcess_failure_witness:
  \<open>trim (textInput_value (sample_page (ascii ''hello'') (ascii ''te''))) \<noteq> [] \<and>
   is_failure (Response 500 JsonFailure) \<and>
   fst (handleProcess sample_engine (Response 500 JsonFailure)
         (sample_page (ascii ''hello'') (ascii ''te''))) = None \<and>
   resultsContainer_innerHTML (snd (handleProcess sample_engine (Response 500 JsonFailure)
         (sample_page (ascii ''hello'') (ascii ''te'')))) = error_html \<and>
   metricsContainer_innerHTML (snd (handleProcess sample_engine (Response 500 JsonFailure)
         (sample_page (ascii ''hello'') (ascii ''te'')))) = failed_html \<and>
   console_errors (snd (handleProcess sample_engine (Response 500 JsonFailure)
         (sample_page (ascii ''hello'') (ascii ''te'')))) = [HttpError 500]\<close>
  using handleProcess_failure [of \<open>sample_page (ascii ''hello'') (ascii ''te'')\<close>
      \<open>Response 500 JsonFailure\<close> sample_engine]
  by (simp add: sample_page_def trim_def isWhiteSpace_def ascii_def ok_def)

text \<open>
  Claim C4. When the trimmed input is not empty, a run of the handler ends either
  with the error view in both regions, or with the success view in both: the
  response was ok and parsed, and the two regions hold what \<^verbatim>\<open>renderResults\<close> and
  \<^verbatim>\<open>renderMetrics\<close> build from it.
\<close>

theorem handleProcess_atomic:
  assumes \<open>trim (textInput_value p) \<noteq> []\<close>
  shows \<open>(resultsContainer_innerHTML (snd (handleProcess b net p)) = error_html \<and>
          metricsContainer_innerHTML (snd (handleProcess b net p)) = failed_html) \<or>
         (\<exists>status d m. net = Response status (JsonValue d) \<and> ok status \<and>
            Get d (ascii ''metrics'') = Inr m \<and>
            renderResults_html b d = Inr (resultsContainer_innerHTML (snd (handleProcess b net p))) \<and>
            renderMetrics_html b m = Inr (metricsContainer_innerHTML (snd (handleProcess b net p))))\<close>
  using assms try_block_cases [of b net \<open>trim (textInput_value p)\<close>
     \<open>p\<lparr>resultsContainer_innerHTML := loading_html, metricsContainer_innerHTML := calculating_html\<rparr>\<close>]
  by (auto simp: handleProcess_def Let_def)

theorem handleProcess_atomic_witness:
  \<open>trim (textInput_value (sample_page (ascii ''hello'') (ascii ''hi''))) \<noteq> [] \<and>
   ((resultsContainer_innerHTML (snd (handleProcess sample_engine (Response 404 JsonFailure)
        (sample_page (ascii ''hello'') (ascii ''hi'')))) = error_html \<and>
     metricsContainer_innerHTML (snd (handleProcess sample_engine (Response 404 JsonFailure)
        (sample_page (ascii ''hello'') (ascii ''hi'')))) = failed_html) \<or>
    (\<exists>status d m. Response 404 JsonFailure = Response status (JsonValue d) \<and> ok status \<and>
        Get d (ascii ''metrics'') = Inr m \<and>
        renderResults_html sample_engine d =
          Inr (resultsContainer_innerHTML (snd (handleProcess sample_engine (Response 404 JsonFailure)
            (sample_page (ascii ''hello'') (ascii ''hi''))))) \<and>
        renderMetrics_html sample_engine m =
          Inr (metricsContainer_innerHTML (snd (handleProcess sample_engine (Response 404 JsonFailure)
            (sample_page (ascii ''hello'') (ascii ''hi'')))))))\<close>
proof -
  have h: \<open>trim (textInput_value (sample_page (ascii ''hello'') (ascii ''hi''))) \<noteq> []\<close>
    by (simp add: sample_page_def trim_def isWhiteSpace_def ascii_def)
  from h handleProcess_atomic [OF h, of sample_engine \<open>Response 404 JsonFailure\<close>]
  show ?thesis by simp
qed

section \<open>Numbers: rounding and fixed notation\<close>

lemma is_digit_digit: \<open>d < 10 \<Longrightarrow> is_digit (digit d)\<close>
proof -
  assume \<open>d < 10\<close>
  then have \<open>d \<in> {0, 1, 2, 3, 4, 5, 6, 7, 8, 9}\<close> by auto
  then show ?thesis by (auto simp: is_digit_def digit_def)
qed

lemma decimal_digits: \<open>list_all is_digit (decimal n)\<close>
proof (induction n rule: decimal.induct)
  case (1 n)
  show ?case
  proof (cases \<open>n < 10\<close>)
    case True
    then show ?thesis by (subst decimal.simps) (simp add: is_digit_digit)
  next
    case False
    with 1 show ?thesis by (subst decimal.simps) (simp add: is_digit_digit)
  qed
qed

lemma dash_not_digit: \<open>is_digit c \<Longrightarrow> c \<noteq> 0x2D\<close>
  by (auto simp: is_digit_def)

lemma fixed_format_point:
  assumes \<open>list_all is_digit m\<close> and \<open>f < length m\<close> and \<open>s = [] \<or> s = [0x2D]\<close>
  shows \<open>fixed_format f (s @ take (length m - f) m @ [0x2E] @ drop (length m - f) m)\<close>
proof -
  define u where \<open>u = take (length m - f) m @ [0x2E] @ drop (length m - f) m\<close>
  have len: \<open>length u = length m + 1\<close> by (simp add: u_def)
  have hd_digit: \<open>is_digit (hd u)\<close>
  proof -
    from assms(2) have \<open>take (length m - f) m \<noteq> []\<close> by auto
    then have \<open>hd u = hd m\<close> by (simp add: u_def)
    moreover from assms(2) have \<open>m \<noteq> []\<close> by auto
    ultimately show ?thesis using assms(1) by (cases m) simp_all
  qed
  have strip: \<open>(if s @ u \<noteq> [] \<and> hd (s @ u) = 0x2D then tl (s @ u) else s @ u) = u\<close>
    using assms(3) dash_not_digit [OF hd_digit] len by (cases u) auto
  have k: \<open>length u - (f + 1) = length m - f\<close> using len assms(2) by simp
  have t: \<open>take (length m - f) u = take (length m - f) m\<close> by (simp add: u_def)
  have n: \<open>u ! (length m - f) = 0x2E\<close> using assms(2) by (simp add: u_def nth_append)
  have d: \<open>drop (Suc (length m - f)) u = drop (length m - f) m\<close>
    using assms(2) by (simp add: u_def)
  have a1: \<open>list_all is_digit (take (length m - f) m)\<close>
    using assms(1) by (auto simp: list_all_iff dest: in_set_takeD)
  have a2: \<open>list_all is_digit (drop (length m - f) m)\<close>
    using assms(1) by (auto simp: list_all_iff dest: in_set_dropD)
  have \<open>fixed_format f (s @ u)\<close>
    unfolding fixed_format_def Let_def strip k t n d using a1 a2 len assms(2) by simp
  then show ?thesis by (simp add: u_def)
qed

lemma toFixed_fixed_format:
  assumes \<open>0 < f\<close> and \<open>\<bar>x\<bar> < 10 ^ 21\<close>
  shows \<open>fixed_format f (toFixed b f (Finite x))\<close>
proof -
  define n where \<open>n = nat \<lfloor>\<bar>x\<bar> * 10 ^ f + 1 / 2\<rfloor>\<close>
  define m1 where
    \<open>m1 = (if length (decimal n) \<le> f then replicate (f + 1 - length (decimal n)) (digit 0) @ decimal n
           else decimal n)\<close>
  define s :: jsstring where \<open>s = (if x < 0 then ascii ''-'' else [])\<close>
  have dig: \<open>list_all is_digit m1\<close>
    using decimal_digits [of n] is_digit_digit [of 0] by (simp add: m1_def list_all_iff)
  have len: \<open>f < length m1\<close> by (simp add: m1_def)
  have s: \<open>s = [] \<or> s = [0x2D]\<close> by (simp add: s_def ascii_def)
  have \<open>toFixed b f (Finite x) = s @ take (length m1 - f) m1 @ [0x2E] @ drop (length m1 - f) m1\<close>
    using assms by (simp add: toFixed_def Let_def n_def m1_def s_def ascii_def)
  with fixed_format_point [OF dig len s] show ?thesis by simp
qed

lemma pow2_pos: \<open>0 < pow2 e\<close>
  by (simp add: pow2_def)

lemma pow2_power_int: \<open>pow2 e = power_int 2 e\<close>
  by (simp add: pow2_def power_int_def power_one_over)

lemma pow2_mono: \<open>e \<le> e' \<Longrightarrow> pow2 e \<le> pow2 e'\<close>
  by (simp add: pow2_power_int power_int_increasing)

lemma pow2_bitlen_le: \<open>0 < p \<Longrightarrow> pow2 (bitlen p - 1) \<le> of_int p\<close>
proof -
  assume p: \<open>0 < p\<close>
  then have \<open>0 < bitlen p\<close> using bitlen_nonneg [of p] bitlen_eq_zero_iff [of p] by linarith
  moreover from p have \<open>2 ^ nat (bitlen p - 1) \<le> p\<close> using bitlen_bounds by blast
  then have \<open>(of_int (2 ^ nat (bitlen p - 1)) :: rat) \<le> of_int p\<close> by (simp only: of_int_le_iff)
  ultimately show ?thesis by (simp add: pow2_def)
qed

lemma less_pow2_bitlen: \<open>0 < q \<Longrightarrow> of_int q < pow2 (bitlen q)\<close>
proof -
  assume q: \<open>0 < q\<close>
  then have \<open>0 < bitlen q\<close> using bitlen_nonneg [of q] bitlen_eq_zero_iff [of q] by linarith
  moreover from q have \<open>q < 2 ^ nat (bitlen q)\<close> using bitlen_bounds by blast
  then have \<open>(of_int q :: rat) < of_int (2 ^ nat (bitlen q))\<close> by (simp only: of_int_less_iff)
  ultimately show ?thesis by (simp add: pow2_def)
qed

lemma pow2_floor_log2_le:
  assumes \<open>0 < x\<close>
  shows \<open>pow2 (floor_log2 x) \<le> x\<close>
proof -
  obtain p q where pq: \<open>quotient_of x = (p, q)\<close> by (cases \<open>quotient_of x\<close>)
  then have q: \<open>0 < q\<close> and x: \<open>x = of_int p / of_int q\<close>
    using quotient_of_denom_pos quotient_of_div by blast+
  from assms x q have p: \<open>0 < p\<close> by (simp add: zero_less_divide_iff)
  define k where \<open>k = bitlen p - bitlen q\<close>
  have \<open>pow2 (k - 1) = pow2 (bitlen p - 1) / pow2 (bitlen q)\<close>
      unfolding k_def by (simp add: pow2_power_int power_int_diff)
  also have \<open>\<dots> \<le> of_int p / pow2 (bitlen q)\<close>
    using pow2_bitlen_le [OF p] pow2_pos [of \<open>bitlen q\<close>] by (simp add: divide_right_mono)
  also have \<open>\<dots> \<le> of_int p / of_int q\<close>
    using less_pow2_bitlen [OF q] p q by (simp add: frac_le)
  finally have low: \<open>pow2 (k - 1) \<le> x\<close> using x by simp
  show ?thesis
    using low pq by (simp add: floor_log2_def k_def Let_def)
qed

lemma round_half_even_bounds: \<open>0 \<le> z \<Longrightarrow> 0 \<le> round_half_even z \<and> of_int (round_half_even z) \<le> z + 1\<close>
  by (auto simp: round_half_even_def Let_def) linarith+

lemma round_double_finite:
  assumes \<open>\<bar>y\<bar> \<le> 10 ^ 20\<close>
  shows \<open>\<exists>v. round_double y = Finite v \<and> \<bar>v\<bar> < 10 ^ 21\<close>
proof (cases \<open>y = 0\<close>)
  case True
  then show ?thesis by (simp add: round_double_def)
next
  case False
  define a where \<open>a = \<bar>y\<bar>\<close>
  define e where \<open>e = max (floor_log2 a - 52) (- 1074)\<close>
  define m where \<open>m = round_half_even (a / pow2 e)\<close>
  define v where \<open>v = of_int m * pow2 e\<close>
  have a: \<open>0 < a\<close> \<open>a \<le> 10 ^ 20\<close> using False assms by (simp_all add: a_def)
  have \<open>pow2 (floor_log2 a - 52) \<le> pow2 (floor_log2 a)\<close> by (rule pow2_mono) simp
  with pow2_floor_log2_le [OF a(1)] have e1: \<open>pow2 (floor_log2 a - 52) \<le> a\<close> by simp
  have e2: \<open>pow2 (- 1074) \<le> 1\<close> by (simp add: pow2_def)
  have pe: \<open>pow2 e \<le> a + 1\<close>
    using e1 e2 a(1) by (cases \<open>floor_log2 a - 52 \<le> - 1074\<close>) (simp_all add: e_def max_def)
  have z: \<open>0 \<le> a / pow2 e\<close> using a(1) pow2_pos [of e] by simp
  from round_half_even_bounds [OF z] have m: \<open>0 \<le> m\<close> \<open>of_int m \<le> a / pow2 e + 1\<close>
    by (simp_all add: m_def)
  have v0: \<open>0 \<le> v\<close> using m(1) pow2_pos [of e] by (simp add: v_def)
  have \<open>v \<le> (a / pow2 e + 1) * pow2 e\<close>
    unfolding v_def using m(2) pow2_pos [of e] by (simp add: mult_right_mono)
  also have \<open>\<dots> = a + pow2 e\<close> using pow2_pos [of e] by (simp add: field_simps)
  finally have \<open>v \<le> 2 * a + 1\<close> using pe by simp
  with a(2) have vb: \<open>v \<le> 2 * 10 ^ 20 + 1\<close> by simp
  then have v21: \<open>v < 10 ^ 21\<close> by simp
  have \<open>(10::rat) ^ 21 < 2 ^ 1024\<close> by simp
  with v21 have fin: \<open>\<not> 2 ^ 1024 \<le> v\<close> by simp
  have \<open>round_double y = Finite (if 0 < y then v else - v)\<close>
    using False fin by (simp add: round_double_def Let_def a_def e_def m_def v_def)
  with v0 v21 show ?thesis by auto
qed

lemma round_half_even_near:
  assumes \<open>\<bar>z - of_int m\<bar> < 1 / 2\<close>
  shows \<open>round_half_even z = m\<close>
proof (cases \<open>of_int m \<le> z\<close>)
  case True
  with assms have \<open>\<lfloor>z\<rfloor> = m\<close> by (intro floor_unique) simp_all
  with assms True show ?thesis by (simp add: round_half_even_def Let_def)
next
  case False
  with assms have f: \<open>\<lfloor>z\<rfloor> = m - 1\<close> by (intro floor_unique) simp_all
  from assms False have \<open>1 / 2 < z - of_int (m - 1)\<close> by simp
  with f show ?thesis by (simp add: round_half_even_def Let_def)
qed

lemma round_double_eval:
  assumes \<open>0 < x\<close> and \<open>floor_log2 x = k\<close> and \<open>max (k - 52) (- 1074) = e\<close>
    and \<open>\<bar>x / pow2 e - of_int m\<bar> < 1 / 2\<close> and \<open>of_int m * pow2 e = v\<close> and \<open>v < 2 ^ 1024\<close>
  shows \<open>round_double x = Finite v\<close>
  using assms round_half_even_near [of \<open>x / pow2 e\<close> m] by (simp add: round_double_def Let_def)

lemma round_8231: \<open>round_double (8231 / 10000) = Finite (7413825706577311 / 9007199254740992)\<close>
proof (rule round_double_eval [where k = \<open>- 1\<close> and e = \<open>- 53\<close> and m = 7413825706577311])
  show \<open>floor_log2 (8231 / 10000) = - 1\<close> by code_simp
qed (simp_all add: pow2_def)

lemma round_half: \<open>round_double (1 / 2) = Finite (1 / 2)\<close>
proof (rule round_double_eval [where k = \<open>- 1\<close> and e = \<open>- 53\<close> and m = 4503599627370496])
  show \<open>floor_log2 (1 / 2) = - 1\<close> by code_simp
qed (simp_all add: pow2_def)

lemma round_9567: \<open>round_double (9567 / 10000) = Finite (8617187527010707 / 9007199254740992)\<close>
proof (rule round_double_eval [where k = \<open>- 1\<close> and e = \<open>- 53\<close> and m = 8617187527010707])
  show \<open>floor_log2 (9567 / 10000) = - 1\<close> by code_simp
qed (simp_all add: pow2_def)

lemma round_9567_times_100:
  \<open>round_double (8617187527010707 / 9007199254740992 * 100) = Finite (6732177755477115 / 70368744177664)\<close>
proof (rule round_double_eval [where k = 6 and e = \<open>- 46\<close> and m = 6732177755477115])
  show \<open>floor_log2 (8617187527010707 / 9007199254740992 * 100) = 6\<close> by code_simp
qed (simp_all add: pow2_def)

lemma round_001: \<open>round_double (1 / 100) = Finite (5764607523034235 / 576460752303423488)\<close>
proof (rule round_double_eval [where k = \<open>- 7\<close> and e = \<open>- 59\<close> and m = 5764607523034235])
  show \<open>floor_log2 (1 / 100) = - 7\<close> by code_simp
qed (simp_all add: pow2_def)

lemma round_001_times_100:
  \<open>round_double (5764607523034235 / 576460752303423488 * 100) = Finite 1\<close>
proof (rule round_double_eval [where k = 0 and e = \<open>- 52\<close> and m = 4503599627370496])
  show \<open>floor_log2 (5764607523034235 / 576460752303423488 * 100) = 0\<close> by code_simp
qed (simp_all add: pow2_def)

lemma toFixed_eval:
  assumes \<open>0 \<le> x\<close> and \<open>x < 10 ^ 21\<close>
    and \<open>of_nat n \<le> x * 10 ^ f + 1 / 2\<close> and \<open>x * 10 ^ f + 1 / 2 < of_nat n + 1\<close>
    and \<open>decimal n = m\<close>
  shows \<open>toFixed b f (Finite x) =
     (let m1 = (if length m \<le> f then replicate (f + 1 - length m) (digit 0) @ m else m)
      in if f \<noteq> 0 then take (length m1 - f) m1 @ ascii ''.'' @ drop (length m1 - f) m1 else m)\<close>
proof -
  have \<open>\<lfloor>x * 10 ^ f + 1 / 2\<rfloor> = int n\<close>
    using assms(3,4) by (intro floor_unique) simp_all
  then have \<open>nat \<lfloor>\<bar>x\<bar> * 10 ^ f + 1 / 2\<rfloor> = n\<close>
    using assms(1) by simp
  then show ?thesis
    using assms(1,2,5) by (simp add: toFixed_def Let_def)
qed

lemma decimal_823: \<open>decimal 823 = ascii ''823''\<close>
  by (simp add: decimal.simps digit_def ascii_def)

lemma decimal_500: \<open>decimal 500 = ascii ''500''\<close>
  by (simp add: decimal.simps digit_def ascii_def)

lemma decimal_9567: \<open>decimal 9567 = ascii ''9567''\<close>
  by (simp add: decimal.simps digit_def ascii_def)

lemma decimal_100: \<open>decimal 100 = ascii ''100''\<close>
  by (simp add: decimal.simps digit_def ascii_def)


lemma fixed_8231: \<open>toFixed b 3 (Finite (7413825706577311 / 9007199254740992)) = ascii ''0.823''\<close>
  by (subst toFixed_eval [where n = 823 and m = \<open>ascii ''823''\<close>])
    (simp_all add: decimal_823 ascii_def digit_def)

lemma fixed_half: \<open>toFixed b 3 (Finite (1 / 2)) = ascii ''0.500''\<close>
  by (subst toFixed_eval [where n = 500 and m = \<open>ascii ''500''\<close>])
    (simp_all add: decimal_500 ascii_def digit_def)

lemma fixed_9567: \<open>toFixed b 2 (Finite (6732177755477115 / 70368744177664)) = ascii ''95.67''\<close>
  by (subst toFixed_eval [where n = 9567 and m = \<open>ascii ''9567''\<close>])
    (simp_all add: decimal_9567 ascii_def digit_def)

lemma fixed_001: \<open>toFixed b 2 (Finite 1) = ascii ''1.00''\<close>
  by (subst toFixed_eval [where n = 100 and m = \<open>ascii ''100''\<close>])
    (simp_all add: decimal_100 ascii_def digit_def)

section \<open>Rendering a response of the expected shape\<close>

lemma render_item_represented:
  \<open>represents_item r it \<Longrightarrow> render_item b i r = Inr (item_markup b (i + 1) it)\<close>
  by (simp add: represents_item_def render_item_def item_markup_def)

lemma map_items_represented:
  \<open>list_all2 represents_item rs its \<Longrightarrow>
   map_items b i rs = Inr (map (\<lambda>k. item_markup b (i + k + 1) (its ! k)) [0..<length its])\<close>
proof (induction rs its arbitrary: i rule: list_all2_induct)
  case Nil
  then show ?case by simp
next
  case (Cons r rs it its)
  have \<open>map (\<lambda>k. item_markup b (i + k + 1) ((it # its) ! k)) [0..<length (it # its)] =
        item_markup b (i + 1) it # map (\<lambda>k. item_markup b (Suc i + k + 1) (its ! k)) [0..<length its]\<close>
    by (simp add: map_upt_Suc del: upt_Suc)
  with Cons show ?case
    by (simp add: render_item_represented)
qed

lemma item_markup_nonempty: \<open>item_markup b k it \<noteq> []\<close>
  by (simp add: item_markup_def item_open_def ascii_def)

lemma norm_represented:
  \<open>Get d (ascii ''normalized_text'') = Inr (case nt of None \<Rightarrow> JUndefined | Some s \<Rightarrow> JStr s) \<Longrightarrow>
   norm b d = Inr (case nt of None \<Rightarrow> [] | Some s \<Rightarrow> if s = [] then [] else norm_open @ s @ norm_close)\<close>
  by (cases nt) (simp_all add: norm_def)

lemma ragList_represented:
  assumes g: \<open>Get d (ascii ''retrieved_items'') = Inr (JArr rs)\<close>
    and r: \<open>list_all2 represents_item rs its\<close>
  shows \<open>ragList b d = Inr (if its = [] then no_items_html
                      else concat (map (\<lambda>k. item_markup b (k + 1) (its ! k)) [0..<length its]))\<close>
proof -
  define hs where \<open>hs = map (\<lambda>k. item_markup b (k + 1) (its ! k)) [0..<length its]\<close>
  have m: \<open>map_items b 0 rs = Inr hs\<close>
    using map_items_represented [OF r, of b 0] by (simp add: hs_def)
  have \<open>ragList b d = Inr (if its = [] then no_items_html else concat hs)\<close>
  proof (cases its)
    case Nil
    then have \<open>hs = []\<close> by (simp add: hs_def)
    with g m Nil show ?thesis by (simp add: ragList_def)
  next
    case (Cons it its')
    then have \<open>hs = item_markup b 1 it # map (\<lambda>k. item_markup b (Suc k + 1) (its ! Suc k)) [0..<length its']\<close>
      by (simp add: hs_def map_upt_Suc del: upt_Suc)
    then have \<open>concat hs \<noteq> []\<close>
      by (simp add: item_markup_nonempty)
    moreover have \<open>its \<noteq> []\<close> using Cons by simp
    ultimately show ?thesis using g m by (simp add: ragList_def)
  qed
  then show ?thesis by (simp only: hs_def)
qed

lemma renderResults_html_represented:
  assumes \<open>represents_response d R\<close>
  shows \<open>renderResults_html b d =
     Inr (card_open @ detected_language_name R @ original_open @ original_text R @
          original_close @
          (case normalized_text R of None \<Rightarrow> []
           | Some s \<Rightarrow> if s = [] then [] else norm_open @ s @ norm_close) @
          retrieved_open @
          (if retrieved_items R = [] then no_items_html
           else concat (map (\<lambda>k. item_markup b (k + 1) (retrieved_items R ! k))
                          [0..<length (retrieved_items R)])) @
          final_open @ translated_text R @ card_close)\<close>
proof -
  from assms obtain rs where
    rs: \<open>Get d (ascii ''retrieved_items'') = Inr (JArr rs)\<close> \<open>list_all2 represents_item rs (retrieved_items R)\<close>
    by (auto simp: represents_response_def)
  from assms have
    n: \<open>Get d (ascii ''normalized_text'') = Inr (case normalized_text R of None \<Rightarrow> JUndefined | Some s \<Rightarrow> JStr s)\<close>
    and o: \<open>Get d (ascii ''detected_language_name'') = Inr (JStr (detected_language_name R))\<close>
      \<open>Get d (ascii ''original_text'') = Inr (JStr (original_text R))\<close>
      \<open>Get d (ascii ''translated_text'') = Inr (JStr (translated_text R))\<close>
    by (simp_all add: represents_response_def)
  show ?thesis
    unfolding renderResults_html_def
    by (simp add: norm_represented [OF n] ragList_represented [OF rs] o)
qed

section \<open>Rendering that throws\<close>

lemma call_toFixed_Inr: \<open>call_toFixed b v f = Inr s \<Longrightarrow> \<exists>n. v = JNum n\<close>
  by (cases v) simp_all

lemma render_item_bad_score:
  assumes \<open>\<forall>n. Get r (ascii ''score'') \<noteq> Inr (JNum n)\<close>
  shows \<open>\<exists>e. render_item b i r = Inl e\<close>
proof (rule ccontr)
  assume \<open>\<not> (\<exists>e. render_item b i r = Inl e)\<close>
  then obtain h where \<open>render_item b i r = Inr h\<close> by (cases \<open>render_item b i r\<close>) auto
  then obtain v s where \<open>Get r (ascii ''score'') = Inr v\<close> \<open>call_toFixed b v 3 = Inr s\<close>
    by (auto simp: render_item_def bindE_def split: sum.splits)
  with assms call_toFixed_Inr show False by blast
qed

lemma map_items_bad:
  assumes \<open>r \<in> set rs\<close> and \<open>\<And>i. \<exists>e. render_item b i r = Inl e\<close>
  shows \<open>\<exists>e. map_items b i rs = Inl e\<close>
  using assms(1)
proof (induction rs arbitrary: i)
  case Nil
  then show ?case by simp
next
  case (Cons a rs)
  show ?case
  proof (cases \<open>render_item b i a\<close>)
    case (Inl e)
    then show ?thesis by simp
  next
    case (Inr h)
    with assms(2) [of i] have \<open>a \<noteq> r\<close> by auto
    with Cons.prems have \<open>r \<in> set rs\<close> by simp
    from Cons.IH [OF this, of \<open>Suc i\<close>] Inr show ?thesis by auto
  qed
qed

lemma renderMetrics_html_undefined: \<open>renderMetrics_html b JUndefined = Inl TypeError\<close>
  by (simp add: renderMetrics_html_def)

lemma render_throws_no_metrics:
  \<open>Get d (ascii ''metrics'') = Inr JUndefined \<Longrightarrow> render_throws b d\<close>
  by (simp add: render_throws_def renderMetrics_html_undefined split: sum.splits)

lemma render_throws_bad_score:
  assumes \<open>Get d (ascii ''retrieved_items'') = Inr (JArr rs)\<close> and \<open>r \<in> set rs\<close>
    and \<open>\<forall>n. Get r (ascii ''score'') \<noteq> Inr (JNum n)\<close>
  shows \<open>render_throws b d\<close>
proof -
  from map_items_bad [OF assms(2), of b 0] render_item_bad_score [OF assms(3)]
  obtain e where \<open>map_items b 0 rs = Inl e\<close> by blast
  with assms(1) have \<open>ragList b d = Inl e\<close> by (simp add: ragList_def)
  then have \<open>\<exists>e'. renderResults_html b d = Inl e'\<close>
    by (cases \<open>norm b d\<close>) (simp_all add: renderResults_html_def)
  then show ?thesis by (auto simp: render_throws_def)
qed

lemma bindE_Inl: \<open>bindE m f = Inl e \<longleftrightarrow> m = Inl e \<or> (\<exists>v. m = Inr v \<and> f v = Inl e)\<close>
  by (cases m) simp_all

lemma ToString_TypeError:
  \<open>ToString b v = Inl e \<Longrightarrow> e = TypeError\<close>
  \<open>join_elements b vs = Inl e \<Longrightarrow> e = TypeError\<close>
proof (induction b v and b vs arbitrary: e and e rule: ToString_join_elements.induct)
  case (9 b v vs)
  then show ?case
    by (auto simp: bindE_Inl split: if_splits)
qed (auto split: if_splits)

lemma Get_TypeError: \<open>Get v k = Inl e \<Longrightarrow> e = TypeError\<close>
  by (cases v) simp_all

lemma call_toFixed_TypeError: \<open>call_toFixed b v f = Inl e \<Longrightarrow> e = TypeError\<close>
  by (cases v) simp_all

lemma ToNumber_TypeError: \<open>ToNumber b v = Inl e \<Longrightarrow> e = TypeError\<close>
  by (cases v) (auto simp: bindE_Inl split: if_splits dest: ToString_TypeError)

lemma percent_TypeError: \<open>percent b v = Inl e \<Longrightarrow> e = TypeError\<close>
  by (auto simp: percent_def bindE_Inl dest: ToNumber_TypeError)

lemma render_item_TypeError: \<open>render_item b i r = Inl e \<Longrightarrow> e = TypeError\<close>
  by (auto simp: render_item_def bindE_Inl
      dest: Get_TypeError ToString_TypeError(1) call_toFixed_TypeError)

lemma map_items_TypeError: \<open>map_items b i rs = Inl e \<Longrightarrow> e = TypeError\<close>
  by (induction rs arbitrary: i) (auto simp: bindE_Inl dest: render_item_TypeError)

lemma norm_TypeError: \<open>norm b d = Inl e \<Longrightarrow> e = TypeError\<close>
  by (auto simp: norm_def bindE_Inl split: if_splits dest: Get_TypeError ToString_TypeError(1))

lemma ragList_TypeError: \<open>ragList b d = Inl e \<Longrightarrow> e = TypeError\<close>
  by (auto simp: ragList_def bindE_Inl split: if_splits jsval.splits
      dest: Get_TypeError map_items_TypeError)

lemma renderResults_html_TypeError: \<open>renderResults_html b d = Inl e \<Longrightarrow> e = TypeError\<close>
  by (auto simp: renderResults_html_def bindE_Inl
      dest: Get_TypeError ToString_TypeError(1) norm_TypeError ragList_TypeError)

lemma renderMetrics_html_TypeError: \<open>renderMetrics_html b m = Inl e \<Longrightarrow> e = TypeError\<close>
  by (auto simp: renderMetrics_html_def bindE_Inl
      dest: Get_TypeError ToString_TypeError(1) percent_TypeError)

lemma try_block_render_throws:
  \<open>ok status \<Longrightarrow> render_throws b d \<Longrightarrow>
   \<exists>p2. try_block b (Response status (JsonValue d)) text p = (Some TypeError, p2) \<and>
      console_errors p2 = console_errors p\<close>
  by (auto simp: try_block_def Let_def renderResults_def renderMetrics_def render_throws_def
      split: sum.splits prod.splits option.splits
      dest: Get_TypeError renderResults_html_TypeError renderMetrics_html_TypeError)

text \<open>
  Claim C10. When the trimmed input is not empty, the status is ok and the body
  parses, but rendering the parsed value throws, the handler ends as for a
  failure of the network step: the fixed error message in the results region, the
  fixed label in the metrics region, the error (a TypeError) logged and no
  exception let out.
  Rendering throws in particular when the value has no \<^verbatim>\<open>metrics\<close>, and when an
  element of \<^verbatim>\<open>retrieved_items\<close> has a \<^verbatim>\<open>score\<close> that is not a number.
\<close>

theorem handleProcess_render_failure:
  assumes \<open>trim (textInput_value p) \<noteq> []\<close> and \<open>ok status\<close>
    and \<open>render_throws b d \<or>
         Get d (ascii ''metrics'') = Inr JUndefined \<or>
         (\<exists>rs r. Get d (ascii ''retrieved_items'') = Inr (JArr rs) \<and> r \<in> set rs \<and>
                 (\<forall>n. Get r (ascii ''score'') \<noteq> Inr (JNum n)))\<close>
  shows \<open>fst (handleProcess b (Response status (JsonValue d)) p) = None \<and>
         resultsContainer_innerHTML (snd (handleProcess b (Response status (JsonValue d)) p)) = error_html \<and>
         metricsContainer_innerHTML (snd (handleProcess b (Response status (JsonValue d)) p)) = failed_html \<and>
         console_errors (snd (handleProcess b (Response status (JsonValue d)) p)) =
           console_errors p @ [TypeError]\<close>
proof -
  from assms(3) have t: \<open>render_throws b d\<close>
    using render_throws_no_metrics render_throws_bad_score by blast
  from try_block_render_throws [OF assms(2) t, of \<open>trim (textInput_value p)\<close>
      \<open>p\<lparr>resultsContainer_innerHTML := loading_html, metricsContainer_innerHTML := calculating_html\<rparr>\<close>]
  obtain p2 where
    \<open>try_block b (Response status (JsonValue d)) (trim (textInput_value p))
       (p\<lparr>resultsContainer_innerHTML := loading_html, metricsContainer_innerHTML := calculating_html\<rparr>) =
     (Some TypeError, p2)\<close> and \<open>console_errors p2 = console_errors p\<close>
    by auto
  with assms(1) show ?thesis by (simp add: handleProcess_def Let_def)
qed

theorem handleProcess_render_failure_witness:
  \<open>trim (textInput_value (sample_page (ascii ''hello'') (ascii ''hi''))) \<noteq> [] \<and> ok 200 \<and>
   Get (JObj [(ascii ''translated_text'', JStr (ascii ''hello''))]) (ascii ''metrics'') = Inr JUndefined \<and>
   fst (handleProcess sample_engine
          (Response 200 (JsonValue (JObj [(ascii ''translated_text'', JStr (ascii ''hello''))])))
          (sample_page (ascii ''hello'') (ascii ''hi''))) = None \<and>
   resultsContainer_innerHTML (snd (handleProcess sample_engine
          (Response 200 (JsonValue (JObj [(ascii ''translated_text'', JStr (ascii ''hello''))])))
          (sample_page (ascii ''hello'') (ascii ''hi'')))) = error_html \<and>
   metricsContainer_innerHTML (snd (handleProcess sample_engine
          (Response 200 (JsonValue (JObj [(ascii ''translated_text'', JStr (ascii ''hello''))])))
          (sample_page (ascii ''hello'') (ascii ''hi'')))) = failed_html \<and>
   console_errors (snd (handleProcess sample_engine
          (Response 200 (JsonValue (JObj [(ascii ''translated_text'', JStr (ascii ''hello''))])))
          (sample_page (ascii ''hello'') (ascii ''hi'')))) = [TypeError]\<close>
proof -
  have h: \<open>trim (textInput_value (sample_page (ascii ''hello'') (ascii ''hi''))) \<noteq> []\<close>
    by (simp add: sample_page_def trim_def isWhiteSpace_def ascii_def)
  have k: \<open>ok 200\<close> by (simp add: ok_def)
  have m: \<open>Get (JObj [(ascii ''translated_text'', JStr (ascii ''hello''))]) (ascii ''metrics'') = Inr JUndefined\<close>
    by (simp add: ascii_def)
  have c: \<open>console_errors (sample_page (ascii ''hello'') (ascii ''hi'')) = []\<close>
    by (simp add: sample_page_def)
  from h k m c handleProcess_render_failure [OF h k, of sample_engine
      \<open>JObj [(ascii ''translated_text'', JStr (ascii ''hello''))]\<close>]
  show ?thesis by simp
qed

section \<open>What a response of the expected shape renders\<close>

lemma sublist_append_right: \<open>sublist x y \<Longrightarrow> sublist x (a @ y)\<close>
  by (metis append.assoc sublist_def)

lemma sublist_append_left: \<open>sublist x y \<Longrightarrow> sublist x (y @ a)\<close>
  by (metis append.assoc sublist_def)

lemma sublist_concat: \<open>x \<in> set xs \<Longrightarrow> sublist x (concat xs)\<close>
proof -
  assume \<open>x \<in> set xs\<close>
  then obtain as bs where \<open>xs = as @ x # bs\<close> by (auto dest: split_list)
  then have \<open>concat xs = concat as @ x @ concat bs\<close> by simp
  then show ?thesis by (simp only: sublist_appendI)
qed

lemma sublist_item_text: \<open>sublist (item_text it) (item_markup b k it)\<close>
proof -
  have \<open>item_markup b k it =
        (item_open @ decimal k @ bullet @ item_domain it @ bullet @ item_lang it @
         bullet_score @ toFixed b 3 (Finite (item_score it)) @ item_text_open) @
        item_text it @ item_close\<close>
    by (simp add: item_markup_def)
  then show ?thesis by (simp only: sublist_appendI)
qed

lemma percent_number:
  \<open>percent b (JNum (Finite x)) = Inr (toFixed b 2 (round_double (x * 100)))\<close>
  by (simp add: percent_def)

lemma renderMetrics_html_represented:
  assumes \<open>represents_metrics m M\<close>
  shows \<open>renderMetrics_html b m =
     Inr (bleu_open @ Number_toString b (Finite (bleu M)) @
          comet_open @ Number_toString b (Finite (comet M)) @
          latency_open @ Number_toString b (Finite (latency_ms M)) @
          ne_open @ toFixed b 2 (round_double (named_entity_preservation M * 100)) @
          toxicity_open @ toFixed b 2 (round_double (toxicity_leakage M * 100)) @
          grid_close)\<close>
  using assms unfolding represents_metrics_def renderMetrics_html_def
  by (simp add: percent_number del: Number_toString.simps)

lemma percent_format:
  assumes \<open>\<bar>x\<bar> \<le> 10 ^ 18\<close>
  shows \<open>fixed_format 2 (toFixed b 2 (round_double (x * 100)))\<close>
proof -
  from assms have \<open>\<bar>x * 100\<bar> \<le> 10 ^ 20\<close> by (simp add: abs_mult)
  from round_double_finite [OF this] obtain v where
    \<open>round_double (x * 100) = Finite v\<close> \<open>\<bar>v\<bar> < 10 ^ 21\<close> by blast
  then show ?thesis by (simp add: toFixed_fixed_format)
qed

lemma sample_items_represented: \<open>list_all2 represents_item sample_item_values sample_items\<close>
  by (simp add: sample_item_values_def sample_items_def represents_item_def round_8231 round_half
      ascii_def)

text \<open>
  Claim C5. For a response of the expected shape, the normalized-text block is
  rendered if and only if \<^verbatim>\<open>normalized_text\<close> is present and not the empty string:
  the constant \<^verbatim>\<open>norm\<close> is then the block around the text, and is the empty string
  otherwise, and it is what the results markup holds between the original text
  and the retrieved context.
\<close>

theorem renderResults_normalized_block:
  assumes \<open>represents_response d R\<close>
  shows \<open>norm b d =
           Inr (case normalized_text R of None \<Rightarrow> []
                | Some s \<Rightarrow> if s = [] then [] else norm_open @ s @ norm_close) \<and>
         (norm b d = Inr [] \<longleftrightarrow> normalized_text R = None \<or> normalized_text R = Some []) \<and>
         (\<exists>items_s. ragList b d = Inr items_s \<and>
            renderResults_html b d =
              Inr (card_open @ detected_language_name R @ original_open @ original_text R @
                   original_close @
                   (case normalized_text R of None \<Rightarrow> []
                    | Some s \<Rightarrow> if s = [] then [] else norm_open @ s @ norm_close) @
                   retrieved_open @ items_s @ final_open @ translated_text R @ card_close))\<close>
proof -
  from assms obtain rs where
    rs: \<open>Get d (ascii ''retrieved_items'') = Inr (JArr rs)\<close>
      \<open>list_all2 represents_item rs (retrieved_items R)\<close>
    by (auto simp: represents_response_def)
  from assms have
    n: \<open>Get d (ascii ''normalized_text'') =
          Inr (case normalized_text R of None \<Rightarrow> JUndefined | Some s \<Rightarrow> JStr s)\<close>
    by (simp add: represents_response_def)
  have open_ne: \<open>norm_open \<noteq> []\<close> by (simp add: norm_open_def ascii_def)
  have 1: \<open>norm b d =
           Inr (case normalized_text R of None \<Rightarrow> []
                | Some s \<Rightarrow> if s = [] then [] else norm_open @ s @ norm_close)\<close>
    by (rule norm_represented [OF n])
  have 2: \<open>norm b d = Inr [] \<longleftrightarrow> normalized_text R = None \<or> normalized_text R = Some []\<close>
    unfolding 1 using open_ne by (cases \<open>normalized_text R\<close>) auto
  show ?thesis
    using 1 2 ragList_represented [OF rs, of b] renderResults_html_represented [OF assms, of b]
    by simp
qed

theorem renderResults_normalized_block_witness:
  \<open>represents_response
     (sample_response_value [(ascii ''normalized_text'', JStr (ascii ''namaste''))] sample_item_values)
     (sample_response (Some (ascii ''namaste'')) sample_items) \<and>
   norm sample_engine
     (sample_response_value [(ascii ''normalized_text'', JStr (ascii ''namaste''))] sample_item_values) =
     Inr (norm_open @ ascii ''namaste'' @ norm_close) \<and>
   represents_response (sample_response_value [] []) (sample_response None []) \<and>
   norm sample_engine (sample_response_value [] []) = Inr []\<close>
proof -
  have h1: \<open>represents_response
     (sample_response_value [(ascii ''normalized_text'', JStr (ascii ''namaste''))] sample_item_values)
     (sample_response (Some (ascii ''namaste'')) sample_items)\<close>
    using sample_items_represented
    by (simp add: sample_response_value_def sample_response_def represents_response_def ascii_def)
  have h2: \<open>represents_response (sample_response_value [] []) (sample_response None [])\<close>
    by (simp add: sample_response_value_def sample_response_def represents_response_def ascii_def)
  from h1 h2 renderResults_normalized_block [OF h1, of sample_engine]
    renderResults_normalized_block [OF h2, of sample_engine]
  show ?thesis by (simp add: sample_response_def ascii_def)
qed

text \<open>
  Claim C6. For a response of the expected shape with no retrieved items, the
  retrieved-context part of the results markup is the placeholder, once, and
  nothing else: no item element is rendered.
\<close>

theorem renderResults_no_items:
  assumes \<open>represents_response d R\<close> and \<open>retrieved_items R = []\<close>
  shows \<open>ragList b d = Inr no_items_html \<and>
         renderResults_html b d =
           Inr (card_open @ detected_language_name R @ original_open @ original_text R @
                original_close @
                (case normalized_text R of None \<Rightarrow> []
                 | Some s \<Rightarrow> if s = [] then [] else norm_open @ s @ norm_close) @
                retrieved_open @ no_items_html @ final_open @ translated_text R @ card_close)\<close>
proof -
  from assms obtain rs where
    rs: \<open>Get d (ascii ''retrieved_items'') = Inr (JArr rs)\<close>
      \<open>list_all2 represents_item rs (retrieved_items R)\<close>
    by (auto simp: represents_response_def)
  show ?thesis
    using assms(2) ragList_represented [OF rs, of b] renderResults_html_represented [OF assms(1), of b]
    by simp
qed

theorem renderResults_no_items_witness:
  \<open>represents_response (sample_response_value [] []) (sample_response None []) \<and>
   retrieved_items (sample_response None []) = [] \<and>
   ragList sample_engine (sample_response_value [] []) = Inr no_items_html \<and>
   renderResults_html sample_engine (sample_response_value [] []) =
     Inr (card_open @ ascii ''Hindi'' @ original_open @ ascii ''<i>namaste</i>'' @ original_close @
          retrieved_open @ no_items_html @ final_open @ ascii ''hello'' @ card_close)\<close>
proof -
  have h: \<open>represents_response (sample_response_value [] []) (sample_response None [])\<close>
    by (simp add: sample_response_value_def sample_response_def represents_response_def ascii_def)
  have e: \<open>retrieved_items (sample_response None []) = []\<close>
    by (simp add: sample_response_def)
  from h e renderResults_no_items [OF h e, of sample_engine]
  show ?thesis by (simp add: sample_response_def)
qed

text \<open>
  Claim C7. For a non-empty array of retrieved items of the expected shape, the
  rendered list is the concatenation of one element per item, in the order of the
  array: the element at position \<open>k\<close> (from 0) is that of the item at position \<open>k\<close>,
  with rank \<open>k + 1\<close>, its domain, its language, its score in fixed notation with 3
  decimals, and its text. A score below \<open>10 ^ 21\<close> in magnitude (the expected range
  is 0 to 1) is printed with exactly 3 decimals; the scores 0.8231 and 0.5 are
  printed as 0.823 and 0.500.
\<close>

theorem ragList_items:
  assumes \<open>Get d (ascii ''retrieved_items'') = Inr (JArr rs)\<close>
    and \<open>list_all2 represents_item rs its\<close> and \<open>its \<noteq> []\<close>
    and \<open>\<forall>it\<in>set its. \<bar>item_score it\<bar> < 10 ^ 21\<close>
  shows \<open>(\<exists>hs. ragList b d = Inr (concat hs) \<and> length hs = length its \<and>
            (\<forall>k<length its. hs ! k = item_markup b (k + 1) (its ! k))) \<and>
         (\<forall>it\<in>set its. fixed_format 3 (toFixed b 3 (Finite (item_score it)))) \<and>
         toFixed b 3 (round_double (8231 / 10000)) = ascii ''0.823'' \<and>
         toFixed b 3 (round_double (1 / 2)) = ascii ''0.500''\<close>
proof -
  define hs where \<open>hs = map (\<lambda>k. item_markup b (k + 1) (its ! k)) [0..<length its]\<close>
  have \<open>ragList b d = Inr (concat hs)\<close>
    using ragList_represented [OF assms(1,2), of b] assms(3) by (simp add: hs_def)
  moreover have \<open>length hs = length its\<close> by (simp add: hs_def)
  moreover have \<open>\<forall>k<length its. hs ! k = item_markup b (k + 1) (its ! k)\<close> by (simp add: hs_def)
  moreover have \<open>\<forall>it\<in>set its. fixed_format 3 (toFixed b 3 (Finite (item_score it)))\<close>
    using assms(4) by (simp add: toFixed_fixed_format)
  ultimately show ?thesis
    by (simp only: round_8231 round_half fixed_8231 fixed_half) blast
qed

theorem ragList_items_witness:
  \<open>Get (sample_response_value [] sample_item_values) (ascii ''retrieved_items'') =
     Inr (JArr sample_item_values) \<and>
   list_all2 represents_item sample_item_values sample_items \<and> sample_items \<noteq> [] \<and>
   \<bar>item_score (sample_items ! 0)\<bar> < 10 ^ 21 \<and> \<bar>item_score (sample_items ! 1)\<bar> < 10 ^ 21 \<and>
   (\<exists>hs. ragList sample_engine (sample_response_value [] sample_item_values) = Inr (concat hs) \<and>
      length hs = 2 \<and>
      hs ! 0 = item_markup sample_engine 1 (sample_items ! 0) \<and>
      hs ! 1 = item_markup sample_engine 2 (sample_items ! 1)) \<and>
   toFixed sample_engine 3 (Finite (item_score (sample_items ! 0))) = ascii ''0.823'' \<and>
   toFixed sample_engine 3 (Finite (item_score (sample_items ! 1))) = ascii ''0.500''\<close>
proof -
  have g: \<open>Get (sample_response_value [] sample_item_values) (ascii ''retrieved_items'') =
     Inr (JArr sample_item_values)\<close>
    by (simp add: sample_response_value_def ascii_def)
  have r: \<open>list_all2 represents_item sample_item_values sample_items\<close>
    by (simp add: sample_item_values_def sample_items_def represents_item_def round_8231 round_half
        ascii_def)
  have n: \<open>sample_items \<noteq> []\<close> by (simp add: sample_items_def)
  have s: \<open>\<forall>it\<in>set sample_items. \<bar>item_score it\<bar> < 10 ^ 21\<close> by (simp add: sample_items_def)
  have l: \<open>length sample_items = 2\<close> by (simp add: sample_items_def)
  have i: \<open>item_score (sample_items ! 0) = 7413825706577311 / 9007199254740992\<close>
    \<open>item_score (sample_items ! 1) = 1 / 2\<close>
    by (simp_all add: sample_items_def)
  from ragList_items [OF g r n s, of sample_engine] obtain hs where
    hs: \<open>ragList sample_engine (sample_response_value [] sample_item_values) = Inr (concat hs)\<close>
      \<open>length hs = length sample_items\<close>
      \<open>\<forall>k<length sample_items. hs ! k = item_markup sample_engine (k + 1) (sample_items ! k)\<close>
    and f: \<open>toFixed sample_engine 3 (round_double (8231 / 10000)) = ascii ''0.823''\<close>
      \<open>toFixed sample_engine 3 (round_double (1 / 2)) = ascii ''0.500''\<close>
    by blast
  from hs(3) l have \<open>hs ! 0 = item_markup sample_engine 1 (sample_items ! 0)\<close>
    \<open>hs ! 1 = item_markup sample_engine 2 (sample_items ! 1)\<close>
    by (simp_all add: numeral_2_eq_2)
  with hs(1,2) l have e: \<open>\<exists>hs. ragList sample_engine (sample_response_value [] sample_item_values) =
      Inr (concat hs) \<and> length hs = 2 \<and>
      hs ! 0 = item_markup sample_engine 1 (sample_items ! 0) \<and>
      hs ! 1 = item_markup sample_engine 2 (sample_items ! 1)\<close>
    by (intro exI [of _ hs]) (simp only: simp_thms)
  have t1: \<open>toFixed sample_engine 3 (Finite (item_score (sample_items ! 0))) = ascii ''0.823''\<close>
    using f(1) by (simp only: i round_8231)
  have t2: \<open>toFixed sample_engine 3 (Finite (item_score (sample_items ! 1))) = ascii ''0.500''\<close>
    using f(2) by (simp only: i round_half)
  have s0: \<open>\<bar>item_score (sample_items ! 0)\<bar> < 10 ^ 21\<close>
    and s1: \<open>\<bar>item_score (sample_items ! 1)\<bar> < 10 ^ 21\<close>
    by (simp_all add: sample_items_def)
  from g r n s0 s1 e t1 t2 show ?thesis by (intro conjI)
qed

text \<open>
  Claim C8. For a metrics object of the expected shape, the metrics markup holds
  all five fields: \<^verbatim>\<open>bleu\<close>, \<^verbatim>\<open>comet\<close> and \<^verbatim>\<open>latency_ms\<close> in the plain string
  conversion of the number received, and the two fractions multiplied by 100, in
  fixed notation with 2 decimals, each followed by a percent sign. A fraction up
  to \<open>10 ^ 18\<close> in magnitude (the expected range is 0 to 1) is printed with exactly 2
  decimals; 0.9567 is printed as 95.67 and 0.01 as 1.00.
\<close>

theorem renderMetrics_fields:
  assumes \<open>represents_metrics m M\<close>
    and \<open>\<bar>named_entity_preservation M\<bar> \<le> 10 ^ 18\<close> and \<open>\<bar>toxicity_leakage M\<bar> \<le> 10 ^ 18\<close>
  shows \<open>renderMetrics_html b m =
           Inr (bleu_open @ Number_toString b (Finite (bleu M)) @
                comet_open @ Number_toString b (Finite (comet M)) @
                latency_open @ Number_toString b (Finite (latency_ms M)) @
                ne_open @ toFixed b 2 (round_double (named_entity_preservation M * 100)) @
                toxicity_open @ toFixed b 2 (round_double (toxicity_leakage M * 100)) @
                grid_close) \<and>
         fixed_format 2 (toFixed b 2 (round_double (named_entity_preservation M * 100))) \<and>
         fixed_format 2 (toFixed b 2 (round_double (toxicity_leakage M * 100))) \<and>
         percent b (JNum (round_double (9567 / 10000))) = Inr (ascii ''95.67'') \<and>
         percent b (JNum (round_double (1 / 100))) = Inr (ascii ''1.00'')\<close>
proof -
  have \<open>percent b (JNum (round_double (9567 / 10000))) = Inr (ascii ''95.67'')\<close>
    by (simp only: round_9567 percent_number round_9567_times_100 fixed_9567)
  moreover have \<open>percent b (JNum (round_double (1 / 100))) = Inr (ascii ''1.00'')\<close>
    by (simp only: round_001 percent_number round_001_times_100 fixed_001)
  ultimately show ?thesis
    using renderMetrics_html_represented [OF assms(1), of b] percent_format [OF assms(2), of b]
      percent_format [OF assms(3), of b]
    by simp
qed

theorem renderMetrics_fields_witness:
  \<open>represents_metrics sample_metrics_value sample_metrics \<and>
   \<bar>named_entity_preservation sample_metrics\<bar> \<le> 10 ^ 18 \<and>
   \<bar>toxicity_leakage sample_metrics\<bar> \<le> 10 ^ 18 \<and>
   renderMetrics_html sample_engine sample_metrics_value =
     Inr (bleu_open @ ascii ''0.25'' @ comet_open @ ascii ''0.75'' @ latency_open @ ascii ''120'' @
          ne_open @ ascii ''95.67'' @ toxicity_open @ ascii ''1.00'' @ grid_close)\<close>
proof -
  have r: \<open>represents_metrics sample_metrics_value sample_metrics\<close>
    by (simp add: sample_metrics_value_def sample_metrics_def represents_metrics_def round_9567
        round_001 ascii_def)
  have a: \<open>\<bar>named_entity_preservation sample_metrics\<bar> \<le> 10 ^ 18\<close>
    and c: \<open>\<bar>toxicity_leakage sample_metrics\<bar> \<le> 10 ^ 18\<close>
    by (simp_all add: sample_metrics_def)
  have v: \<open>named_entity_preservation sample_metrics = 8617187527010707 / 9007199254740992\<close>
    \<open>toxicity_leakage sample_metrics = 5764607523034235 / 576460752303423488\<close>
    \<open>bleu sample_metrics = 1 / 4\<close> \<open>comet sample_metrics = 3 / 4\<close> \<open>latency_ms sample_metrics = 120\<close>
    by (simp_all add: sample_metrics_def)
  have t: \<open>Number_toString sample_engine (Finite (1 / 4)) = ascii ''0.25''\<close>
    \<open>Number_toString sample_engine (Finite (3 / 4)) = ascii ''0.75''\<close>
    \<open>Number_toString sample_engine (Finite 120) = ascii ''120''\<close>
    by (simp_all add: sample_engine_def)
  from renderMetrics_fields [OF r a c, of sample_engine]
  have \<open>renderMetrics_html sample_engine sample_metrics_value =
     Inr (bleu_open @ ascii ''0.25'' @ comet_open @ ascii ''0.75'' @ latency_open @ ascii ''120'' @
          ne_open @ ascii ''95.67'' @ toxicity_open @ ascii ''1.00'' @ grid_close)\<close>
    by (simp only: v t round_9567_times_100 round_001_times_100 fixed_9567 fixed_001)
  with r a c show ?thesis by blast
qed

text \<open>
  Claim C9. For a response of the expected shape, the results markup contains the
  detected language name, the original text, the normalized text, the text of
  every retrieved item and the translated text, each as the very string
  received: nothing is escaped.
\<close>

theorem renderResults_verbatim:
  assumes \<open>represents_response d R\<close>
  shows \<open>\<exists>h. renderResults_html b d = Inr h \<and>
           sublist (detected_language_name R) h \<and>
           sublist (original_text R) h \<and>
           (\<forall>s. normalized_text R = Some s \<longrightarrow> sublist s h) \<and>
           (\<forall>it\<in>set (retrieved_items R). sublist (item_text it) h) \<and>
           sublist (translated_text R) h\<close>
proof -
  define N where
    \<open>N = (case normalized_text R of None \<Rightarrow> []
          | Some s \<Rightarrow> if s = [] then [] else norm_open @ s @ norm_close)\<close>
  define L where
    \<open>L = (if retrieved_items R = [] then no_items_html
          else concat (map (\<lambda>k. item_markup b (k + 1) (retrieved_items R ! k))
                         [0..<length (retrieved_items R)]))\<close>
  define h where
    \<open>h = card_open @ detected_language_name R @ original_open @ original_text R @
         original_close @ N @ retrieved_open @ L @ final_open @ translated_text R @ card_close\<close>
  have r: \<open>renderResults_html b d = Inr h\<close>
    using renderResults_html_represented [OF assms, of b] by (simp add: h_def N_def L_def)
  have 1: \<open>sublist (detected_language_name R) h\<close>
    unfolding h_def by (rule sublist_appendI)
  have 2: \<open>sublist (original_text R) h\<close>
  proof -
    have \<open>h = (card_open @ detected_language_name R @ original_open) @ original_text R @
               (original_close @ N @ retrieved_open @ L @ final_open @ translated_text R @ card_close)\<close>
      by (simp add: h_def)
    then show ?thesis by (simp only: sublist_appendI)
  qed
  have inN: \<open>sublist x N \<Longrightarrow> sublist x h\<close> for x
  proof -
    assume x: \<open>sublist x N\<close>
    have \<open>h = (card_open @ detected_language_name R @ original_open @ original_text R @ original_close) @
               (N @ (retrieved_open @ L @ final_open @ translated_text R @ card_close))\<close>
      by (simp add: h_def)
    with x show ?thesis by (simp only: sublist_append_right sublist_append_left)
  qed
  have inL: \<open>sublist x L \<Longrightarrow> sublist x h\<close> for x
  proof -
    assume x: \<open>sublist x L\<close>
    have \<open>h = (card_open @ detected_language_name R @ original_open @ original_text R @
                original_close @ N @ retrieved_open) @
               (L @ (final_open @ translated_text R @ card_close))\<close>
      by (simp add: h_def)
    with x show ?thesis by (simp only: sublist_append_right sublist_append_left)
  qed
  have 3: \<open>\<forall>s. normalized_text R = Some s \<longrightarrow> sublist s h\<close>
  proof (intro allI impI)
    fix s assume s: \<open>normalized_text R = Some s\<close>
    show \<open>sublist s h\<close>
    proof (cases \<open>s = []\<close>)
      case True
      then show ?thesis by simp
    next
      case False
      with s have \<open>N = norm_open @ s @ norm_close\<close> by (simp add: N_def)
      then have \<open>sublist s N\<close> by (simp only: sublist_appendI)
      then show ?thesis by (rule inN)
    qed
  qed
  have 4: \<open>\<forall>it\<in>set (retrieved_items R). sublist (item_text it) h\<close>
  proof
    fix it assume it: \<open>it \<in> set (retrieved_items R)\<close>
    then obtain k where k: \<open>k < length (retrieved_items R)\<close> \<open>retrieved_items R ! k = it\<close>
      by (auto simp: in_set_conv_nth)
    from it have ne: \<open>retrieved_items R \<noteq> []\<close> by auto
    from k have \<open>item_markup b (k + 1) it \<in>
        set (map (\<lambda>k. item_markup b (k + 1) (retrieved_items R ! k)) [0..<length (retrieved_items R)])\<close>
      by auto
    then have \<open>sublist (item_markup b (k + 1) it) L\<close>
      using ne by (simp only: L_def if_False sublist_concat)
    then obtain ps ss where \<open>L = ps @ item_markup b (k + 1) it @ ss\<close>
      by (auto simp: sublist_def)
    moreover from sublist_item_text [of it b \<open>k + 1\<close>] obtain ps' ss' where
      \<open>item_markup b (k + 1) it = ps' @ item_text it @ ss'\<close> by (auto simp: sublist_def)
    ultimately have \<open>L = (ps @ ps') @ item_text it @ (ss' @ ss)\<close> by simp
    then have \<open>sublist (item_text it) L\<close> by (simp only: sublist_appendI)
    then show \<open>sublist (item_text it) h\<close> by (rule inL)
  qed
  have 5: \<open>sublist (translated_text R) h\<close>
  proof -
    have \<open>h = (card_open @ detected_language_name R @ original_open @ original_text R @
                original_close @ N @ retrieved_open @ L @ final_open) @
               translated_text R @ card_close\<close>
      by (simp add: h_def)
    then show ?thesis by (simp only: sublist_appendI)
  qed
  from r 1 2 3 4 5 show ?thesis by blast
qed

theorem renderResults_verbatim_witness:
  \<open>represents_response
     (sample_response_value [(ascii ''normalized_text'', JStr (ascii ''namaste''))] sample_item_values)
     (sample_response (Some (ascii ''namaste'')) sample_items) \<and>
   (\<exists>h. renderResults_html sample_engine
          (sample_response_value [(ascii ''normalized_text'', JStr (ascii ''namaste''))] sample_item_values) = Inr h \<and>
        sublist (ascii ''Hindi'') h \<and> sublist (ascii ''<i>namaste</i>'') h \<and>
        sublist (ascii ''namaste'') h \<and> sublist (ascii ''<b>alpha</b>'') h \<and>
        sublist (ascii ''beta'') h \<and> sublist (ascii ''hello'') h)\<close>
proof -
  have h1: \<open>represents_response
     (sample_response_value [(ascii ''normalized_text'', JStr (ascii ''namaste''))] sample_item_values)
     (sample_response (Some (ascii ''namaste'')) sample_items)\<close>
    using sample_items_represented
    by (simp add: sample_response_value_def sample_response_def represents_response_def ascii_def)
  from renderResults_verbatim [OF h1, of sample_engine] h1 show ?thesis
    by (simp add: sample_response_def sample_items_def)
qed

end
